theory Spec2Isabelle
  imports Main "HOL-Library.Word" "HOL-Library.Sublist"
begin

section \<open>Data model\<close>

text \<open>
  A Go \<open>error\<close> value is modelled by the text its \<open>Error()\<close> method returns; the
  interface value \<open>nil\<close> is \<open>None\<close>. Go's \<open>int64\<close> is a 64-bit word, \<open>[]byte\<close> and
  \<open>string\<close> are byte lists. A pointer that the code dereferences is an \<open>option\<close>:
  dereferencing \<open>None\<close> is the run-time panic of Go.
\<close>

type_synonym error = string
type_synonym int64 = "64 word"
type_synonym bytes = string

text \<open>The struct \<open>Wheelie\<close> of \<open>pkg/wheelie/wheelie.go\<close>. The element type of
  \<open>map[string]interface{}\<close> is a parameter; a nil map is \<open>None\<close>.\<close>

record 'v Wheelie =
  Kubeconfig :: string
  KubeContext :: string
  Chart :: string
  ChartVersion :: string
  Values :: "(string \<rightharpoonup> 'v) option"
  NoHooks :: bool
  NoCRDHook :: bool
  Timeout :: int64
  Release :: string
  Namespace :: string
  Wait :: bool
  TillerNamespace :: string
  TillerHost :: string
  TillerTimeout :: int64

text \<open>The structs of the ansible module (\<open>ModuleInput\<close>, \<open>ModuleOutput\<close>,
  \<open>ModuleInvocation\<close>, \<open>HelmModule\<close>).\<close>

record 'v ModuleInput =
  Kubeconfig :: string
  Chart :: string
  ChartVersion :: string
  Values :: "(string \<rightharpoonup> 'v) option"
  NoHooks :: bool
  NoCRDHook :: bool
  Timeout :: int64
  Release :: string
  Namespace :: string
  State :: string
  TillerNamespace :: string
  Wait :: bool

record 'v ModuleInvocation =
  ModuleArgs :: "'v ModuleInput"

record 'v ModuleOutput =
  Msg :: string
  Changed :: bool
  Failed :: bool
  Invocation :: "'v ModuleInvocation"

record 'v HelmModule =
  Input :: "'v ModuleInput"
  Output :: "'v ModuleOutput"

definition statePresent :: string where "statePresent = ''present''"
definition stateAbsent :: string where "stateAbsent = ''absent''"
definition statePurged :: string where "statePurged = ''purged''"

subsection \<open>The helm messages the code reads\<close>

text \<open>The release status codes of helm's \<open>hapi/release\<close> package, and the parts of
  its messages that the code reads. Every nested message is held through a pointer.\<close>

datatype Status_Code =
    Status_UNKNOWN | Status_DEPLOYED | Status_DELETED | Status_SUPERSEDED | Status_FAILED
  | Status_DELETING | Status_PENDING_INSTALL | Status_PENDING_UPGRADE | Status_PENDING_ROLLBACK

record hapi_Status =
  Code :: Status_Code

record hapi_Info =
  Status :: "hapi_Status option"
  Description :: string

record hapi_Release =
  Name :: string
  Info :: "hapi_Info option"
  Manifest :: string
  Namespace :: string
  Hooks :: "string list"

text \<open>\<open>GetReleaseContentResponse\<close>, \<open>InstallReleaseResponse\<close> and \<open>UpdateReleaseResponse\<close>
  all carry the release in a field \<open>Release\<close>.\<close>

record Response =
  Release :: "hapi_Release option"

record Tunnel =
  Local :: int

subsection \<open>Options of the helm client\<close>

datatype helm_Option = Host string | ConnectTimeout int64

datatype InstallOption =
    ValueOverrides bytes
  | ReleaseName string
  | InstallDisableHooks bool
  | InstallDisableCRDHook bool
  | InstallTimeout int64
  | InstallWait bool

datatype UpdateOption =
    UpdateValueOverrides bytes
  | UpgradeDisableHooks bool
  | UpgradeTimeout int64
  | UpgradeWait bool
  | UpgradeForce bool
  | UpgradeDryRun bool

datatype DeleteOption =
    DeleteDisableHooks bool
  | DeletePurge bool
  | DeleteTimeout int64

type_synonym Client = "helm_Option list"

definition NewClient :: "helm_Option list \<Rightarrow> Client" where
  "NewClient opts = opts"

subsection \<open>The collaborators outside the repository\<close>

text \<open>
  The chart loader, the JSON encoder, helm's client, the manifest parser and the manifest
  differ are libraries. They are parameters of the model, with the shape of their Go
  signatures: a call that returns \<open>(*T, error)\<close> returns a pair of a pointer and an error,
  and a call that talks to tiller also transforms the state \<open>'s\<close> of the world.
\<close>

record ('s, 'c, 'v, 'm) helm_env =
  chartutil_Load :: "string \<Rightarrow> 'c \<times> error option"
  json_Marshal :: "(string \<rightharpoonup> 'v) option \<Rightarrow> bytes \<times> error option"
  ErrReleaseNotFound :: "string \<Rightarrow> error"
  ReleaseContent :: "Client \<Rightarrow> string \<Rightarrow> 's \<Rightarrow> (Response option \<times> error option) \<times> 's"
  InstallReleaseFromChart ::
    "Client \<Rightarrow> 'c \<Rightarrow> string \<Rightarrow> InstallOption list \<Rightarrow> 's \<Rightarrow> (Response option \<times> error option) \<times> 's"
  UpdateRelease ::
    "Client \<Rightarrow> string \<Rightarrow> string \<Rightarrow> UpdateOption list \<Rightarrow> 's \<Rightarrow> (Response option \<times> error option) \<times> 's"
  DeleteRelease ::
    "Client \<Rightarrow> string \<Rightarrow> DeleteOption list \<Rightarrow> 's \<Rightarrow> (Response option \<times> error option) \<times> 's"
  manifest_Parse :: "string \<Rightarrow> string \<Rightarrow> 'm"
  manifest_ParseRelease :: "hapi_Release option \<Rightarrow> 'm"
  diff_DiffManifests :: "'m \<Rightarrow> 'm \<Rightarrow> string list \<Rightarrow> int \<Rightarrow> bool"

record ('s, 'k, 'cl) kube_env =
  kube_GetConfig :: "string \<Rightarrow> string \<Rightarrow> 'k \<times> error option"
  kubernetes_NewForConfig :: "'k \<Rightarrow> 'cl \<times> error option"
  portforwarder_New :: "string \<Rightarrow> 'cl \<Rightarrow> 'k \<Rightarrow> 's \<Rightarrow> (Tunnel option \<times> error option) \<times> 's"
  fmt_q :: "string \<Rightarrow> string"

record 'v io_env =
  os_Args :: "string list"
  ioutil_ReadFile :: "string \<Rightarrow> bytes \<times> error option"
  json_Unmarshal :: "bytes \<Rightarrow> 'v ModuleInput \<Rightarrow> 'v ModuleInput \<times> error option"
  json_Marshal_Output :: "'v ModuleOutput \<Rightarrow> bytes \<times> error option"

subsection \<open>The calls made to the backend\<close>

text \<open>Every call that reaches the cluster is logged with its arguments and with the
  error it returned.\<close>

datatype 'c call =
    Call_portforwarder_New string
  | Call_ReleaseContent Client string
  | Call_InstallReleaseFromChart Client 'c string "InstallOption list"
  | Call_UpdateRelease Client string string "UpdateOption list"
  | Call_DeleteRelease Client string "DeleteOption list"

type_synonym 'c event = "'c call \<times> error option"

type_synonym ('s, 'c) world = "'s \<times> 'c event list"

datatype 'a outcome = Return 'a | Panic

definition do_ReleaseContent ::
  "('s, 'c, 'v, 'm) helm_env \<Rightarrow> Client \<Rightarrow> string \<Rightarrow> ('s, 'c) world
    \<Rightarrow> (Response option \<times> error option) \<times> ('s, 'c) world" where
  "do_ReleaseContent env client rlsName st =
     (case ReleaseContent env client rlsName (fst st) of
        ((res, err), s') \<Rightarrow> ((res, err), (s', snd st @ [(Call_ReleaseContent client rlsName, err)])))"

definition do_InstallReleaseFromChart ::
  "('s, 'c, 'v, 'm) helm_env \<Rightarrow> Client \<Rightarrow> 'c \<Rightarrow> string \<Rightarrow> InstallOption list \<Rightarrow> ('s, 'c) world
    \<Rightarrow> (Response option \<times> error option) \<times> ('s, 'c) world" where
  "do_InstallReleaseFromChart env client chart ns opts st =
     (case InstallReleaseFromChart env client chart ns opts (fst st) of
        ((res, err), s') \<Rightarrow>
          ((res, err), (s', snd st @ [(Call_InstallReleaseFromChart client chart ns opts, err)])))"

definition do_UpdateRelease ::
  "('s, 'c, 'v, 'm) helm_env \<Rightarrow> Client \<Rightarrow> string \<Rightarrow> string \<Rightarrow> UpdateOption list \<Rightarrow> ('s, 'c) world
    \<Rightarrow> (Response option \<times> error option) \<times> ('s, 'c) world" where
  "do_UpdateRelease env client rlsName chartPath opts st =
     (case UpdateRelease env client rlsName chartPath opts (fst st) of
        ((res, err), s') \<Rightarrow>
          ((res, err), (s', snd st @ [(Call_UpdateRelease client rlsName chartPath opts, err)])))"

definition do_DeleteRelease ::
  "('s, 'c, 'v, 'm) helm_env \<Rightarrow> Client \<Rightarrow> string \<Rightarrow> DeleteOption list \<Rightarrow> ('s, 'c) world
    \<Rightarrow> (Response option \<times> error option) \<times> ('s, 'c) world" where
  "do_DeleteRelease env client rlsName opts st =
     (case DeleteRelease env client rlsName opts (fst st) of
        ((res, err), s') \<Rightarrow>
          ((res, err), (s', snd st @ [(Call_DeleteRelease client rlsName opts, err)])))"

definition do_portforwarder_New ::
  "('s, 'k, 'cl) kube_env \<Rightarrow> string \<Rightarrow> 'cl \<Rightarrow> 'k \<Rightarrow> ('s, 'c) world
    \<Rightarrow> (Tunnel option \<times> error option) \<times> ('s, 'c) world" where
  "do_portforwarder_New kenv ns client config st =
     (case portforwarder_New kenv ns client config (fst st) of
        ((fw, err), s') \<Rightarrow> ((fw, err), (s', snd st @ [(Call_portforwarder_New ns, err)])))"

section \<open>Strings and formatting\<close>

text \<open>\<open>strings.Contains s sub\<close>: \<open>sub\<close> occurs in \<open>s\<close>.\<close>

fun strings_Contains :: "string \<Rightarrow> string \<Rightarrow> bool" where
  "strings_Contains [] sub = (sub = [])"
| "strings_Contains (c # s) sub = (prefix sub (c # s) \<or> strings_Contains s sub)"

text \<open>The verb \<open>%d\<close> of \<open>fmt\<close> on an integer.\<close>

fun digits :: "nat \<Rightarrow> string" where
  "digits n =
     (if n < 10 then [''0123456789'' ! n]
      else digits (n div 10) @ [''0123456789'' ! (n mod 10)])"

declare digits.simps [simp del]

definition fmt_d :: "int \<Rightarrow> string" where
  "fmt_d i = (if i < 0 then CHR ''-'' # digits (nat (- i)) else digits (nat i))"

section \<open>The package \<open>wheelie\<close>\<close>

subsection \<open>\<open>ForwardTillerPort\<close>\<close>

definition ForwardTillerPort ::
  "('s, 'k, 'cl) kube_env \<Rightarrow> 'v Wheelie \<Rightarrow> ('s, 'c) world
    \<Rightarrow> error option outcome \<times> 'v Wheelie \<times> ('s, 'c) world" where
  "ForwardTillerPort kenv w st =
     (case kube_GetConfig kenv (KubeContext w) (Wheelie.Kubeconfig w) of (config, err) \<Rightarrow>
      (case err of
         Some e \<Rightarrow>
           (Return (Some (''could not get Kubernetes config for context '' @ fmt_q kenv (KubeContext w)
                            @ '': '' @ e)), w, st)
       | None \<Rightarrow>
      (case kubernetes_NewForConfig kenv config of (client, err) \<Rightarrow>
      (case err of
         Some e \<Rightarrow> (Return (Some (''could not get Kubernetes client: '' @ e)), w, st)
       | None \<Rightarrow>
      (case do_portforwarder_New kenv (Wheelie.TillerNamespace w) client config st of
         ((forwarder, err), st1) \<Rightarrow>
      (case err of
         Some e \<Rightarrow> (Return (Some e), w, st1)
       | None \<Rightarrow>
      (case forwarder of
         None \<Rightarrow> (Panic, w, st1)
       | Some fw \<Rightarrow>
           (Return None, w\<lparr>TillerHost := ''127.0.0.1:'' @ fmt_d (Local fw)\<rparr>, st1))))))))"

subsection \<open>\<open>EnsureReleasePresent\<close>\<close>

text \<open>The test \<open>err != nil && strings.Contains(err.Error(), ErrReleaseNotFound(name).Error())\<close>.\<close>

definition release_not_found ::
  "('s, 'c, 'v, 'm) helm_env \<Rightarrow> string \<Rightarrow> error option \<Rightarrow> bool" where
  "release_not_found env rlsName err =
     (case err of None \<Rightarrow> False | Some e \<Rightarrow> strings_Contains e (ErrReleaseNotFound env rlsName))"

text \<open>\<open>r.Release.Info.Status.Code\<close> and \<open>r.Release.Info.Description\<close>: \<open>None\<close> when a
  pointer on the path is nil.\<close>

definition response_Status_Code :: "Response option \<Rightarrow> Status_Code option" where
  "response_Status_Code r =
     (case r of None \<Rightarrow> None | Some resp \<Rightarrow>
      (case Response.Release resp of None \<Rightarrow> None | Some rel \<Rightarrow>
      (case Info rel of None \<Rightarrow> None | Some info \<Rightarrow>
      (case Status info of None \<Rightarrow> None | Some stat \<Rightarrow> Some (Code stat)))))"

definition response_Description :: "Response option \<Rightarrow> string option" where
  "response_Description r =
     (case r of None \<Rightarrow> None | Some resp \<Rightarrow>
      (case Response.Release resp of None \<Rightarrow> None | Some rel \<Rightarrow>
      (case Info rel of None \<Rightarrow> None | Some info \<Rightarrow> Some (Description info))))"

text \<open>The return statements after a mutating call: the error if there is one, else the
  description of the release in the response.\<close>

definition return_Description ::
  "Response option \<Rightarrow> error option \<Rightarrow> (string \<times> bool \<times> error option) outcome" where
  "return_Description res err =
     (case err of
        Some e \<Rightarrow> Return ('''', False, Some e)
      | None \<Rightarrow>
          (case response_Description res of
             None \<Rightarrow> Panic
           | Some d \<Rightarrow> Return (d, True, None)))"

text \<open>The two manifests that are compared (lines 133 to 143).\<close>

definition parse_manifests ::
  "('s, 'c, 'v, 'm) helm_env \<Rightarrow> bool \<Rightarrow> Response option \<Rightarrow> Response option \<Rightarrow> ('m \<times> 'm) option" where
  "parse_manifests env noHooks releaseResponse dryRunResponse =
     (case releaseResponse of None \<Rightarrow> None | Some cur \<Rightarrow>
     (case dryRunResponse of None \<Rightarrow> None | Some dry \<Rightarrow>
     (if noHooks then
        (case Response.Release cur of None \<Rightarrow> None | Some curRel \<Rightarrow>
        (case Response.Release dry of None \<Rightarrow> None | Some dryRel \<Rightarrow>
           Some (manifest_Parse env (Manifest curRel) (hapi_Release.Namespace curRel),
                 manifest_Parse env (Manifest dryRel) (hapi_Release.Namespace dryRel))))
      else
        Some (manifest_ParseRelease env (Response.Release cur),
              manifest_ParseRelease env (Response.Release dry)))))"

definition EnsureReleasePresent ::
  "('s, 'c, 'v, 'm) helm_env \<Rightarrow> 'v Wheelie \<Rightarrow> ('s, 'c) world
    \<Rightarrow> (string \<times> bool \<times> error option) outcome \<times> ('s, 'c) world" where
  "EnsureReleasePresent env w st =
     (let chartPath = Wheelie.Chart w in
      (case chartutil_Load env chartPath of (chart, err) \<Rightarrow>
      (if err \<noteq> None then (Return ('''', False, err), st) else
      (case json_Marshal env (Wheelie.Values w) of (rawVals, err) \<Rightarrow>
      (if err \<noteq> None then (Return ('''', False, err), st) else
      (let helmOptions = [Host (TillerHost w), ConnectTimeout (TillerTimeout w)];
           client = NewClient helmOptions in
      (case do_ReleaseContent env client (Wheelie.Release w) st of
         ((releaseResponse, err), st1) \<Rightarrow>
      (if release_not_found env (Wheelie.Release w) err then
         (case do_InstallReleaseFromChart env client chart (Wheelie.Namespace w)
                 [ValueOverrides rawVals,
                  ReleaseName (Wheelie.Release w),
                  InstallDisableHooks (Wheelie.NoHooks w),
                  InstallDisableCRDHook (Wheelie.NoCRDHook w),
                  InstallTimeout (Wheelie.Timeout w),
                  InstallWait (Wheelie.Wait w)] st1 of
            ((res, err), st2) \<Rightarrow> (return_Description res err, st2))
       else
      (case response_Status_Code releaseResponse of
         None \<Rightarrow> (Panic, st1)
       | Some code \<Rightarrow>
      (if code = Status_DELETED then
         (case do_UpdateRelease env client (Wheelie.Release w) chartPath
                 [UpdateValueOverrides rawVals,
                  UpgradeDisableHooks (Wheelie.NoHooks w),
                  UpgradeTimeout (Wheelie.Timeout w),
                  UpgradeWait (Wheelie.Wait w),
                  UpgradeForce True] st1 of
            ((res, err), st2) \<Rightarrow> (return_Description res err, st2))
       else
      (case do_UpdateRelease env client (Wheelie.Release w) chartPath
              [UpdateValueOverrides rawVals,
               UpgradeDisableHooks (Wheelie.NoHooks w),
               UpgradeTimeout (Wheelie.Timeout w),
               UpgradeDryRun True] st1 of
         ((dryRunResponse, err), st2) \<Rightarrow>
      (if err \<noteq> None then (Return ('''', False, err), st2) else
      (case parse_manifests env (Wheelie.NoHooks w) releaseResponse dryRunResponse of
         None \<Rightarrow> (Panic, st2)
       | Some (currentManifests, newManifests) \<Rightarrow>
      (let hasChanges = diff_DiffManifests env currentManifests newManifests [] (- 1) in
      (if hasChanges then
         (case do_UpdateRelease env client (Wheelie.Release w) chartPath
                 [UpdateValueOverrides rawVals,
                  UpgradeDisableHooks (Wheelie.NoHooks w),
                  UpgradeTimeout (Wheelie.Timeout w),
                  UpgradeWait (Wheelie.Wait w)] st2 of
            ((res, err), st3) \<Rightarrow> (return_Description res err, st3))
       else (Return ('''', False, None), st2))))))))))))))))"

subsection \<open>\<open>ensureReleaseAbsent\<close>, \<open>EnsureReleaseAbsent\<close> and \<open>EnsureReleasePurged\<close>\<close>

definition ensureReleaseAbsent ::
  "('s, 'c, 'v, 'm) helm_env \<Rightarrow> 'v Wheelie \<Rightarrow> bool \<Rightarrow> ('s, 'c) world
    \<Rightarrow> (string \<times> bool \<times> error option) outcome \<times> ('s, 'c) world" where
  "ensureReleaseAbsent env w purge st =
     (let helmOptions = [Host (TillerHost w), ConnectTimeout (TillerTimeout w)];
          client = NewClient helmOptions in
      (case do_ReleaseContent env client (Wheelie.Release w) st of
         ((releaseResponse, err), st1) \<Rightarrow>
      (if release_not_found env (Wheelie.Release w) err then (Return ('''', False, None), st1) else
      (case response_Status_Code releaseResponse of
         None \<Rightarrow> (Panic, st1)
       | Some code \<Rightarrow>
      (if code = Status_DELETED \<and> \<not> purge then (Return ('''', False, None), st1) else
      (let opts = [DeleteDisableHooks (Wheelie.NoHooks w),
                   DeletePurge purge,
                   DeleteTimeout (Wheelie.Timeout w)] in
      (case do_DeleteRelease env client (Wheelie.Release w) opts st1 of
         ((_, err), st2) \<Rightarrow>
      (if err \<noteq> None then (Return ('''', False, err), st2) else
      (let msg = ''release '' @ Wheelie.Release w @ '' deleted'' in
       (Return (msg, True, None), st2))))))))))"

definition EnsureReleaseAbsent ::
  "('s, 'c, 'v, 'm) helm_env \<Rightarrow> 'v Wheelie \<Rightarrow> ('s, 'c) world
    \<Rightarrow> (string \<times> bool \<times> error option) outcome \<times> ('s, 'c) world" where
  "EnsureReleaseAbsent env w st = ensureReleaseAbsent env w False st"

definition EnsureReleasePurged ::
  "('s, 'c, 'v, 'm) helm_env \<Rightarrow> 'v Wheelie \<Rightarrow> ('s, 'c) world
    \<Rightarrow> (string \<times> bool \<times> error option) outcome \<times> ('s, 'c) world" where
  "EnsureReleasePurged env w st = ensureReleaseAbsent env w True st"

section \<open>The ansible module\<close>

subsection \<open>\<open>setDefaultInputs\<close>\<close>

definition setDefaultInputs :: "'v HelmModule \<Rightarrow> 'v HelmModule" where
  "setDefaultInputs m0 =
     (let m1 = (if State (Input m0) = ''''
                then m0\<lparr>Input := (Input m0)\<lparr>State := ''present''\<rparr>\<rparr> else m0);
          m2 = (if ModuleInput.Namespace (Input m1) = ''''
                then m1\<lparr>Input := (Input m1)\<lparr>ModuleInput.Namespace := ''default''\<rparr>\<rparr> else m1);
          m3 = (if ModuleInput.Timeout (Input m2) = 0
                then m2\<lparr>Input := (Input m2)\<lparr>ModuleInput.Timeout := 300\<rparr>\<rparr> else m2);
          m4 = (if ModuleInput.Values (Input m3) = None
                then m3\<lparr>Input := (Input m3)\<lparr>ModuleInput.Values := Some Map.empty\<rparr>\<rparr> else m3);
          m5 = (if ModuleInput.TillerNamespace (Input m4) = ''''
                then m4\<lparr>Input := (Input m4)\<lparr>ModuleInput.TillerNamespace := ''kube-system''\<rparr>\<rparr>
                else m4)
      in m5)"

subsection \<open>\<open>respondJSON\<close>, \<open>succeed\<close> and \<open>fail\<close>\<close>

text \<open>The zero value of \<open>ModuleInput\<close>, for the composite literal \<open>ModuleOutput{Msg: ...}\<close>.\<close>

definition zero_ModuleInput :: "'v ModuleInput" where
  "zero_ModuleInput =
     \<lparr> ModuleInput.Kubeconfig = '''', ModuleInput.Chart = '''', ModuleInput.ChartVersion = '''',
       ModuleInput.Values = None, ModuleInput.NoHooks = False, ModuleInput.NoCRDHook = False,
       ModuleInput.Timeout = 0, ModuleInput.Release = '''', ModuleInput.Namespace = '''',
       State = '''', ModuleInput.TillerNamespace = '''', ModuleInput.Wait = False \<rparr>"

text \<open>\<open>respondJSON\<close> returns the module and the line it writes to the standard output.\<close>

definition respondJSON :: "'v io_env \<Rightarrow> 'v HelmModule \<Rightarrow> 'v HelmModule \<times> string" where
  "respondJSON io m0 =
     (let m = m0\<lparr>Output := (Output m0)\<lparr>Invocation :=
                  (Invocation (Output m0))\<lparr>ModuleArgs := Input m0\<rparr>\<rparr>\<rparr> in
      case json_Marshal_Output io (Output m) of (responseBytes, err) \<Rightarrow>
      (case err of
         None \<Rightarrow> (m, responseBytes)
       | Some e \<Rightarrow>
           (m, fst (json_Marshal_Output io
                      \<lparr> Msg = ''unexpected output: '' @ e, Changed = False, Failed = False,
                        Invocation = \<lparr> ModuleArgs = zero_ModuleInput \<rparr> \<rparr>))))"

definition succeed :: "'v io_env \<Rightarrow> 'v HelmModule \<Rightarrow> string \<Rightarrow> bool \<Rightarrow> 'v HelmModule \<times> string" where
  "succeed io m msg changed =
     respondJSON io (m\<lparr>Output := (Output m)\<lparr>Msg := msg, Changed := changed\<rparr>\<rparr>)"

definition fail :: "'v io_env \<Rightarrow> 'v HelmModule \<Rightarrow> string \<Rightarrow> 'v HelmModule \<times> string" where
  "fail io m msg =
     respondJSON io (m\<lparr>Output := (Output m)\<lparr>Failed := True, Msg := msg\<rparr>\<rparr>)"

subsection \<open>\<open>Run\<close>\<close>

definition single_quoted :: "string \<Rightarrow> string" where
  "single_quoted s = CHR 0x27 # s @ [CHR 0x27]"

text \<open>The text of the error of the \<open>default\<close> case of the switch on the state.\<close>

definition state_error :: string where
  "state_error =
     ''state must be one of '' @ single_quoted statePresent @ '', '' @ single_quoted stateAbsent
       @ '', or '' @ single_quoted statePurged"

text \<open>The \<open>wheelie.Wheelie\<close> literal of \<open>Run\<close>: the fields it does not name are zero.\<close>

definition Wheelie_of_Input :: "'v ModuleInput \<Rightarrow> 'v Wheelie" where
  "Wheelie_of_Input i =
     \<lparr> Wheelie.Kubeconfig = ModuleInput.Kubeconfig i,
       KubeContext = '''',
       Wheelie.Chart = ModuleInput.Chart i,
       Wheelie.ChartVersion = ModuleInput.ChartVersion i,
       Wheelie.Values = ModuleInput.Values i,
       Wheelie.NoHooks = ModuleInput.NoHooks i,
       Wheelie.NoCRDHook = ModuleInput.NoCRDHook i,
       Wheelie.Timeout = ModuleInput.Timeout i,
       Wheelie.Release = ModuleInput.Release i,
       Wheelie.Namespace = ModuleInput.Namespace i,
       Wheelie.Wait = ModuleInput.Wait i,
       Wheelie.TillerNamespace = ModuleInput.TillerNamespace i,
       TillerHost = '''',
       TillerTimeout = 300 \<rparr>"

text \<open>The switch on \<open>m.Input.State\<close>; in the \<open>default\<close> case \<open>msg\<close> and \<open>changed\<close> keep
  their zero values.\<close>

definition dispatch ::
  "('s, 'c, 'v, 'm) helm_env \<Rightarrow> string \<Rightarrow> 'v Wheelie \<Rightarrow> ('s, 'c) world
    \<Rightarrow> (string \<times> bool \<times> error option) outcome \<times> ('s, 'c) world" where
  "dispatch env state w st =
     (if state = statePresent then EnsureReleasePresent env w st
      else if state = stateAbsent then EnsureReleaseAbsent env w st
      else if state = statePurged then EnsureReleasePurged env w st
      else (Return ('''', False, Some state_error), st))"

definition Run ::
  "'v io_env \<Rightarrow> ('s, 'k, 'cl) kube_env \<Rightarrow> ('s, 'c, 'v, 'm) helm_env \<Rightarrow> 'v HelmModule
    \<Rightarrow> ('s, 'c) world \<Rightarrow> ('v HelmModule \<times> string) outcome \<times> ('s, 'c) world" where
  "Run io kenv env m0 st =
     (let nargs = length (os_Args io) in
      if nargs \<noteq> 2 then
        (Return (fail io m0 (''expected 2 arguments to module, got '' @ fmt_d (int nargs))), st)
      else
        (let inputFile = os_Args io ! 1 in
         (case ioutil_ReadFile io inputFile of
            (text, Some e) \<Rightarrow> (Return (fail io m0 (''error reading input: '' @ e)), st)
          | (text, None) \<Rightarrow>
         (case json_Unmarshal io text (Input m0) of
            (inp, Some e) \<Rightarrow>
              (Return (fail io (m0\<lparr>Input := inp\<rparr>) (''unable to parse input: '' @ e)), st)
          | (inp, None) \<Rightarrow>
         (let m = setDefaultInputs (m0\<lparr>Input := inp\<rparr>);
              w = Wheelie_of_Input (Input m) in
          (case ForwardTillerPort kenv w st of
             (Panic, w1, st1) \<Rightarrow> (Panic, st1)
           | (Return (Some e), w1, st1) \<Rightarrow>
               (Return (fail io m (''unable to forward tiller port: '' @ e)), st1)
           | (Return None, w1, st1) \<Rightarrow>
          (case dispatch env (State (Input m)) w1 st1 of
             (Panic, st2) \<Rightarrow> (Panic, st2)
           | (Return (msg, changed, Some e), st2) \<Rightarrow> (Return (fail io m e), st2)
           | (Return (msg, changed, None), st2) \<Rightarrow>
               (Return (succeed io m msg changed), st2))))))))"

text \<open>What a run of the program reports when it returns: the flag \<open>failed\<close> and the
  message of the output it leaves.\<close>

definition reported :: "('v HelmModule \<times> string) outcome \<Rightarrow> (bool \<times> string) option" where
  "reported r =
     (case r of
        Return (m, out) \<Rightarrow> Some (Failed (Output m), Msg (Output m))
      | Panic \<Rightarrow> None)"

section \<open>Reading the log of calls\<close>

text \<open>
  An option of helm's client sets one field of the request that is sent to tiller, and a
  field that no option sets keeps the zero value of Go. \<open>UpdateReq_of\<close> gives the flags
  of the upgrade request that a list of options produces.
\<close>

record UpdateReq =
  req_Values :: bytes
  req_DisableHooks :: bool
  req_Timeout :: int64
  req_Wait :: bool
  req_Force :: bool
  req_DryRun :: bool

fun set_UpdateOption :: "UpdateReq \<Rightarrow> UpdateOption \<Rightarrow> UpdateReq" where
  "set_UpdateOption r (UpdateValueOverrides raw) = r\<lparr>req_Values := raw\<rparr>"
| "set_UpdateOption r (UpgradeDisableHooks b) = r\<lparr>req_DisableHooks := b\<rparr>"
| "set_UpdateOption r (UpgradeTimeout t) = r\<lparr>req_Timeout := t\<rparr>"
| "set_UpdateOption r (UpgradeWait b) = r\<lparr>req_Wait := b\<rparr>"
| "set_UpdateOption r (UpgradeForce b) = r\<lparr>req_Force := b\<rparr>"
| "set_UpdateOption r (UpgradeDryRun b) = r\<lparr>req_DryRun := b\<rparr>"

definition zero_UpdateReq :: UpdateReq where
  "zero_UpdateReq =
     \<lparr> req_Values = [], req_DisableHooks = False, req_Timeout = 0, req_Wait = False,
       req_Force = False, req_DryRun = False \<rparr>"

definition UpdateReq_of :: "UpdateOption list \<Rightarrow> UpdateReq" where
  "UpdateReq_of opts = foldl set_UpdateOption zero_UpdateReq opts"

text \<open>The upgrade calls of a log: release name, chart path and request flags.\<close>

fun upgrade_of :: "'c event \<Rightarrow> (string \<times> string \<times> UpdateReq) option" where
  "upgrade_of (Call_UpdateRelease client rlsName chartPath opts, err) =
     Some (rlsName, chartPath, UpdateReq_of opts)"
| "upgrade_of _ = None"

definition upgrades :: "'c event list \<Rightarrow> (string \<times> string \<times> UpdateReq) list" where
  "upgrades evs = List.map_filter upgrade_of evs"

text \<open>A committing call is a call of the mutating executor that is not a dry run: an
  install, an upgrade without the dry-run flag, or a delete.\<close>

fun committing :: "'c call \<Rightarrow> bool" where
  "committing (Call_InstallReleaseFromChart client chart ns opts) = True"
| "committing (Call_UpdateRelease client rlsName chartPath opts) = (\<not> req_DryRun (UpdateReq_of opts))"
| "committing (Call_DeleteRelease client rlsName opts) = True"
| "committing (Call_ReleaseContent client rlsName) = False"
| "committing (Call_portforwarder_New ns) = False"

text \<open>A call of the helm client: everything but the port forwarding.\<close>

fun helm_call :: "'c call \<Rightarrow> bool" where
  "helm_call (Call_portforwarder_New ns) = False"
| "helm_call _ = True"

text \<open>
  The action classes of the reconciliation. A committing call belongs to the class of the
  branch that makes it: an install, a forced upgrade, the upgrade of the conditional
  branch (not forced), a delete. The read and the dry run belong to no class, and a log
  without a committing call is the no-op.
\<close>

datatype action = Install | ForceUpgrade | ConditionalUpgrade | NoOp | Delete

fun action_of :: "'c event \<Rightarrow> action option" where
  "action_of (Call_InstallReleaseFromChart client chart ns opts, err) = Some Install"
| "action_of (Call_UpdateRelease client rlsName chartPath opts, err) =
     (if req_DryRun (UpdateReq_of opts) then None
      else if req_Force (UpdateReq_of opts) then Some ForceUpgrade
      else Some ConditionalUpgrade)"
| "action_of (Call_DeleteRelease client rlsName opts, err) = Some Delete"
| "action_of (Call_ReleaseContent client rlsName, err) = None"
| "action_of (Call_portforwarder_New ns, err) = None"

definition actions :: "'c event list \<Rightarrow> action list" where
  "actions evs =
     (case remdups (List.map_filter action_of evs) of [] \<Rightarrow> [NoOp] | a # as \<Rightarrow> a # as)"

text \<open>The committing calls of a log, and whether one of them succeeded.\<close>

definition commits :: "'c event list \<Rightarrow> 'c event list" where
  "commits evs = filter (\<lambda>ev. committing (fst ev)) evs"

definition committed :: "'c event list \<Rightarrow> bool" where
  "committed evs = list_ex (\<lambda>ev. snd ev = None) (commits evs)"

text \<open>The events a run adds to a log that held \<open>n\<close> events.\<close>

definition added :: "nat \<Rightarrow> ('s, 'c) world \<Rightarrow> 'c event list" where
  "added n st = drop n (snd st)"

text \<open>The client that both \<open>EnsureReleasePresent\<close> and \<open>ensureReleaseAbsent\<close> build.\<close>

definition helm_client :: "'v Wheelie \<Rightarrow> Client" where
  "helm_client w = NewClient [Host (TillerHost w), ConnectTimeout (TillerTimeout w)]"

text \<open>What a reconciliation promises about its log and its result: the calls it adds
  belong to one action class, at most one of them commits, and \<open>changed\<close> is returned
  true exactly when a committing call succeeded.\<close>

definition one_action ::
  "nat \<Rightarrow> (string \<times> bool \<times> error option) outcome \<times> ('s, 'c) world \<Rightarrow> bool" where
  "one_action n r =
     (let evs = added n (snd r) in
      length (actions evs) = 1 \<and> length (commits evs) \<le> 1 \<and>
      (case fst r of
         Panic \<Rightarrow> True
       | Return (msg, changed, err) \<Rightarrow>
           changed = committed evs \<and> (err \<noteq> None \<longrightarrow> \<not> changed)))"

text \<open>What the manifest differ reports in the conditional branch: \<open>Some b\<close> when it is
  run on the two parsed manifests and answers \<open>b\<close>, \<open>None\<close> when a response pointer is
  nil and the differ is not reached.\<close>

definition differ_reports ::
  "('s, 'c, 'v, 'm) helm_env \<Rightarrow> bool \<Rightarrow> Response option \<Rightarrow> Response option \<Rightarrow> bool option" where
  "differ_reports env noHooks releaseResponse dryRunResponse =
     (case parse_manifests env noHooks releaseResponse dryRunResponse of
        None \<Rightarrow> None
      | Some (currentManifests, newManifests) \<Rightarrow>
          Some (diff_DiffManifests env currentManifests newManifests [] (- 1)))"

section \<open>A concrete backend\<close>

text \<open>
  A small backend on which the theorems are run. Tiller knows the release \<open>web\<close>
  (deployed, two replicas) and the release \<open>old\<close> (deleted); it cannot be reached for
  the release \<open>down\<close>; every other release is not found. The chart \<open>web-v1\<close> renders two
  replicas and every other chart three; the upgrade to the chart \<open>web-bad\<close> times out.
  The state of the world counts the committed mutations.
\<close>

definition double_quoted :: "string \<Rightarrow> string" where
  "double_quoted s = CHR 0x22 # s @ [CHR 0x22]"

definition example_response :: "Status_Code \<Rightarrow> string \<Rightarrow> string \<Rightarrow> Response" where
  "example_response code descr mani =
     \<lparr> Response.Release = Some
         \<lparr> Name = ''web'',
           Info = Some \<lparr> Status = Some \<lparr> Code = code \<rparr>, Description = descr \<rparr>,
           Manifest = mani, hapi_Release.Namespace = ''default'', Hooks = [] \<rparr> \<rparr>"

definition example_env :: "(nat, string, string, string) helm_env" where
  "example_env =
     \<lparr> chartutil_Load = (\<lambda>path. (path, None)),
       json_Marshal = (\<lambda>vals. (''{}'', None)),
       ErrReleaseNotFound = (\<lambda>n. ''release: '' @ double_quoted n @ '' not found''),
       ReleaseContent = (\<lambda>client n s.
         if n = ''web'' then
           ((Some (example_response Status_DEPLOYED ''Upgrade complete'' ''replicas: 2''), None), s)
         else if n = ''old'' then
           ((Some (example_response Status_DELETED ''Deletion complete'' ''replicas: 2''), None), s)
         else if n = ''down'' then ((None, Some ''connection refused''), s)
         else ((None, Some (''rpc error: release: '' @ double_quoted n @ '' not found'')), s)),
       InstallReleaseFromChart = (\<lambda>client chart ns opts s.
         ((Some (example_response Status_DEPLOYED ''Install complete'' ''replicas: 3''), None), Suc s)),
       UpdateRelease = (\<lambda>client n path opts s.
         if req_DryRun (UpdateReq_of opts) then
           ((Some (example_response Status_PENDING_UPGRADE ''Dry run complete''
                     (if path = ''web-v1'' then ''replicas: 2'' else ''replicas: 3'')), None), s)
         else if path = ''web-bad'' then ((None, Some ''timed out waiting for the condition''), Suc s)
         else ((Some (example_response Status_DEPLOYED ''Upgrade complete'' ''replicas: 3''), None), Suc s)),
       DeleteRelease = (\<lambda>client n opts s.
         ((Some (example_response Status_DELETED ''Deletion complete'' ''replicas: 2''), None), Suc s)),
       manifest_Parse = (\<lambda>mani ns. ns @ ''/'' @ mani),
       manifest_ParseRelease = (\<lambda>rel.
         case rel of None \<Rightarrow> [] | Some r \<Rightarrow> hapi_Release.Namespace r @ ''/'' @ Manifest r),
       diff_DiffManifests = (\<lambda>old new suppressed ctx. old \<noteq> new) \<rparr>"

definition example_wheelie :: "string \<Rightarrow> string \<Rightarrow> bool \<Rightarrow> string Wheelie" where
  "example_wheelie rlsName chartPath wait =
     \<lparr> Wheelie.Kubeconfig = '''', KubeContext = '''', Wheelie.Chart = chartPath,
       Wheelie.ChartVersion = '''', Wheelie.Values = Some Map.empty, Wheelie.NoHooks = False,
       Wheelie.NoCRDHook = False, Wheelie.Timeout = 300, Wheelie.Release = rlsName,
       Wheelie.Namespace = ''default'', Wheelie.Wait = wait,
       Wheelie.TillerNamespace = ''kube-system'', TillerHost = ''127.0.0.1:44134'',
       TillerTimeout = 300 \<rparr>"

definition example_client :: Client where
  "example_client = [Host ''127.0.0.1:44134'', ConnectTimeout 300]"

text \<open>A cluster whose tiller pod can be reached (\<open>up\<close>) or not.\<close>

definition example_kube_env :: "bool \<Rightarrow> (nat, string, string) kube_env" where
  "example_kube_env up =
     \<lparr> kube_GetConfig = (\<lambda>context kubeconfig. (''config'', None)),
       kubernetes_NewForConfig = (\<lambda>config. (''clientset'', None)),
       portforwarder_New = (\<lambda>ns client config s.
         if up then ((Some \<lparr> Local = 44134 \<rparr>, None), s)
         else ((None, Some ''could not find tiller''), s)),
       fmt_q = double_quoted \<rparr>"

text \<open>A module input file that holds only the state, and an encoder that writes only
  the message.\<close>

definition example_io :: "string \<Rightarrow> string io_env" where
  "example_io state =
     \<lparr> os_Args = [''helm'', ''args.json''],
       ioutil_ReadFile = (\<lambda>path. (state, None)),
       json_Unmarshal = (\<lambda>text inp.
         (inp\<lparr>State := text, ModuleInput.Release := ''web'', ModuleInput.Chart := ''web-v2''\<rparr>, None)),
       json_Marshal_Output = (\<lambda>out. (Msg out, None)) \<rparr>"

definition example_module :: "string HelmModule" where
  "example_module =
     \<lparr> Input = zero_ModuleInput,
       Output = \<lparr> Msg = '''', Changed = False, Failed = False,
                  Invocation = \<lparr> ModuleArgs = zero_ModuleInput \<rparr> \<rparr> \<rparr>"

section \<open>Input normalization\<close>

lemma default_State:
  "(if c then m\<lparr>Input := (Input m)\<lparr>State := v\<rparr>\<rparr> else m) =
     m\<lparr>Input := (Input m)\<lparr>State := (if c then v else State (Input m))\<rparr>\<rparr>"
  by simp

lemma default_Namespace:
  "(if c then m\<lparr>Input := (Input m)\<lparr>ModuleInput.Namespace := v\<rparr>\<rparr> else m) =
     m\<lparr>Input := (Input m)\<lparr>ModuleInput.Namespace :=
                    (if c then v else ModuleInput.Namespace (Input m))\<rparr>\<rparr>"
  by simp

lemma default_Timeout:
  "(if c then m\<lparr>Input := (Input m)\<lparr>ModuleInput.Timeout := v\<rparr>\<rparr> else m) =
     m\<lparr>Input := (Input m)\<lparr>ModuleInput.Timeout :=
                    (if c then v else ModuleInput.Timeout (Input m))\<rparr>\<rparr>"
  by simp

lemma default_Values:
  "(if c then m\<lparr>Input := (Input m)\<lparr>ModuleInput.Values := v\<rparr>\<rparr> else m) =
     m\<lparr>Input := (Input m)\<lparr>ModuleInput.Values :=
                    (if c then v else ModuleInput.Values (Input m))\<rparr>\<rparr>"
  by simp

lemma default_TillerNamespace:
  "(if c then m\<lparr>Input := (Input m)\<lparr>ModuleInput.TillerNamespace := v\<rparr>\<rparr> else m) =
     m\<lparr>Input := (Input m)\<lparr>ModuleInput.TillerNamespace :=
                    (if c then v else ModuleInput.TillerNamespace (Input m))\<rparr>\<rparr>"
  by simp

lemmas default_steps = default_State default_Namespace default_Timeout default_Values
  default_TillerNamespace

lemma setDefaultInputs_eq:
  "setDefaultInputs m = m\<lparr>Input := (Input m)
     \<lparr> State := (if State (Input m) = '''' then ''present'' else State (Input m)),
       ModuleInput.Namespace :=
         (if ModuleInput.Namespace (Input m) = '''' then ''default''
          else ModuleInput.Namespace (Input m)),
       ModuleInput.Timeout :=
         (if ModuleInput.Timeout (Input m) = 0 then 300 else ModuleInput.Timeout (Input m)),
       ModuleInput.Values :=
         (if ModuleInput.Values (Input m) = None then Some Map.empty
          else ModuleInput.Values (Input m)),
       ModuleInput.TillerNamespace :=
         (if ModuleInput.TillerNamespace (Input m) = '''' then ''kube-system''
          else ModuleInput.TillerNamespace (Input m)) \<rparr>\<rparr>"
  unfolding setDefaultInputs_def default_steps
  by (simp add: Let_def cong: let_weak_cong if_cong)

lemma setDefaultInputs_idem: "setDefaultInputs (setDefaultInputs m) = setDefaultInputs m"
proof -
  have "setDefaultInputs (setDefaultInputs m) = setDefaultInputs m"
    by (subst setDefaultInputs_eq [of "setDefaultInputs m"])
       (simp add: setDefaultInputs_eq [of m])
  then show ?thesis .
qed

text \<open>
  C9. Input normalization is a total function of the module: whatever the raw input, it
  returns a module and has no failing branch. It replaces an empty state by \<open>present\<close>, an
  empty namespace by \<open>default\<close>, a zero timeout by 300, a nil map of values by the empty
  map and an empty tiller namespace by \<open>kube-system\<close>, each of the five independently of
  the others; a field that is populated keeps its value, the other fields of the input and
  the output of the module are left as they are; and applying it twice gives what
  applying it once gives.
\<close>

theorem setDefaultInputs_defaults:
  "Output (setDefaultInputs m) = Output m \<and>
   Input (setDefaultInputs m) = (Input m)
     \<lparr> State := (if State (Input m) = '''' then ''present'' else State (Input m)),
       ModuleInput.Namespace :=
         (if ModuleInput.Namespace (Input m) = '''' then ''default''
          else ModuleInput.Namespace (Input m)),
       ModuleInput.Timeout :=
         (if ModuleInput.Timeout (Input m) = 0 then 300 else ModuleInput.Timeout (Input m)),
       ModuleInput.Values :=
         (if ModuleInput.Values (Input m) = None then Some Map.empty
          else ModuleInput.Values (Input m)),
       ModuleInput.TillerNamespace :=
         (if ModuleInput.TillerNamespace (Input m) = '''' then ''kube-system''
          else ModuleInput.TillerNamespace (Input m)) \<rparr> \<and>
   setDefaultInputs (setDefaultInputs m) = setDefaultInputs m"
proof (intro conjI)
  show "Output (setDefaultInputs m) = Output m"
    by (subst setDefaultInputs_eq) simp
  show "setDefaultInputs (setDefaultInputs m) = setDefaultInputs m"
    by (rule setDefaultInputs_idem)
  show "Input (setDefaultInputs m) = (Input m)
     \<lparr> State := (if State (Input m) = '''' then ''present'' else State (Input m)),
       ModuleInput.Namespace :=
         (if ModuleInput.Namespace (Input m) = '''' then ''default''
          else ModuleInput.Namespace (Input m)),
       ModuleInput.Timeout :=
         (if ModuleInput.Timeout (Input m) = 0 then 300 else ModuleInput.Timeout (Input m)),
       ModuleInput.Values :=
         (if ModuleInput.Values (Input m) = None then Some Map.empty
          else ModuleInput.Values (Input m)),
       ModuleInput.TillerNamespace :=
         (if ModuleInput.TillerNamespace (Input m) = '''' then ''kube-system''
          else ModuleInput.TillerNamespace (Input m)) \<rparr>"
    by (subst setDefaultInputs_eq) simp
qed

section \<open>Port forwarding\<close>

lemma ForwardTillerPort_cases:
  "ForwardTillerPort kenv w st = (r, w', st') \<Longrightarrow>
     (r = Return None \<longrightarrow> (\<exists>port. w' = w\<lparr>TillerHost := ''127.0.0.1:'' @ fmt_d port\<rparr>)) \<and>
     (r \<noteq> Return None \<longrightarrow> w' = w)"
  by (auto simp: ForwardTillerPort_def split: prod.splits option.splits)

text \<open>
  C10. When \<open>ForwardTillerPort\<close> returns without an error, the struct it leaves is the
  struct it was given with the field \<open>TillerHost\<close> set to \<open>127.0.0.1:<port>\<close> for a port,
  and nothing else changed. When it returns an error (and also when it does not return),
  the struct is the one it was given.
\<close>

theorem ForwardTillerPort_frame:
  "(fst (ForwardTillerPort kenv w st) = Return None \<longrightarrow>
      (\<exists>port. fst (snd (ForwardTillerPort kenv w st)) =
                 w\<lparr>TillerHost := ''127.0.0.1:'' @ fmt_d port\<rparr>)) \<and>
   (fst (ForwardTillerPort kenv w st) \<noteq> Return None \<longrightarrow>
      fst (snd (ForwardTillerPort kenv w st)) = w)"
  by (rule ForwardTillerPort_cases
        [of kenv w st _ _ "snd (snd (ForwardTillerPort kenv w st))"]) simp

theorem ForwardTillerPort_frame_witness:
  "(\<exists>port. fst (snd (ForwardTillerPort (example_kube_env True)
                        (example_wheelie ''web'' ''web-v2'' True)
                        (0::nat, []::string event list))) =
      (example_wheelie ''web'' ''web-v2'' True)\<lparr>TillerHost := ''127.0.0.1:'' @ fmt_d port\<rparr>) \<and>
   fst (snd (ForwardTillerPort (example_kube_env False)
               (example_wheelie ''web'' ''web-v2'' True)
               (0::nat, []::string event list))) =
     example_wheelie ''web'' ''web-v2'' True"
proof -
  let ?w = "example_wheelie ''web'' ''web-v2'' True"
  let ?st = "(0::nat, []::string event list)"
  have up: "fst (ForwardTillerPort (example_kube_env True) ?w ?st) = Return None"
    by (simp add: ForwardTillerPort_def example_kube_env_def do_portforwarder_New_def)
  have down: "fst (ForwardTillerPort (example_kube_env False) ?w ?st) \<noteq> Return None"
    by (simp add: ForwardTillerPort_def example_kube_env_def do_portforwarder_New_def)
  show ?thesis
    by (rule conjI
         [OF mp [OF conjunct1 [OF ForwardTillerPort_frame [of "example_kube_env True" ?w ?st]] up]
             mp [OF conjunct2 [OF ForwardTillerPort_frame [of "example_kube_env False" ?w ?st]] down]])
qed

section \<open>Reconciliation\<close>

lemmas do_defs = do_ReleaseContent_def do_InstallReleaseFromChart_def do_UpdateRelease_def
  do_DeleteRelease_def NewClient_def helm_client_def

lemmas example_defs = example_env_def example_wheelie_def example_response_def
  double_quoted_def example_client_def release_not_found_def response_Status_Code_def
  response_Description_def UpdateReq_of_def zero_UpdateReq_def parse_manifests_def
  helm_client_def NewClient_def

subsection \<open>The concrete backend, call by call\<close>

lemma example_Load: "chartutil_Load example_env path = (path, None)"
  by (simp add: example_env_def)

lemma example_Marshal: "json_Marshal example_env vals = (''{}'', None)"
  by (simp add: example_env_def)

lemma example_helm_client: "helm_client (example_wheelie rlsName chartPath wait) = example_client"
  by (simp add: helm_client_def NewClient_def example_wheelie_def example_client_def)

lemma example_fields:
  "Wheelie.Release (example_wheelie rlsName chartPath wait) = rlsName"
  "Wheelie.Chart (example_wheelie rlsName chartPath wait) = chartPath"
  "Wheelie.Wait (example_wheelie rlsName chartPath wait) = wait"
  "Wheelie.Values (example_wheelie rlsName chartPath wait) = Some Map.empty"
  "Wheelie.NoHooks (example_wheelie rlsName chartPath wait) = False"
  "Wheelie.NoCRDHook (example_wheelie rlsName chartPath wait) = False"
  "Wheelie.Timeout (example_wheelie rlsName chartPath wait) = 300"
  "Wheelie.Namespace (example_wheelie rlsName chartPath wait) = ''default''"
  by (simp_all add: example_wheelie_def)

lemma example_read_web:
  "ReleaseContent example_env client ''web'' s =
     ((Some (example_response Status_DEPLOYED ''Upgrade complete'' ''replicas: 2''), None), s)"
  by (simp add: example_env_def)

lemma example_read_old:
  "ReleaseContent example_env client ''old'' s =
     ((Some (example_response Status_DELETED ''Deletion complete'' ''replicas: 2''), None), s)"
  by (simp add: example_env_def)

lemma example_read_down:
  "ReleaseContent example_env client ''down'' s = ((None, Some ''connection refused''), s)"
  by (simp add: example_env_def)

lemma example_read_new:
  "ReleaseContent example_env client ''new'' s =
     ((None, Some (''rpc error: release: '' @ double_quoted ''new'' @ '' not found'')), s)"
  by (simp add: example_env_def)

lemma example_not_found:
  "release_not_found example_env ''new''
     (Some (''rpc error: release: '' @ double_quoted ''new'' @ '' not found''))"
  "\<not> release_not_found example_env rlsName None"
  "\<not> release_not_found example_env ''down'' (Some ''connection refused'')"
  by (simp_all add: release_not_found_def example_env_def double_quoted_def)

lemma example_Status_Code:
  "response_Status_Code (Some (example_response code descr mani)) = Some code"
  by (simp add: response_Status_Code_def example_response_def)

lemma example_Description:
  "response_Description (Some (example_response code descr mani)) = Some descr"
  by (simp add: response_Description_def example_response_def)

lemma example_Install:
  "InstallReleaseFromChart example_env client chart ns opts s =
     ((Some (example_response Status_DEPLOYED ''Install complete'' ''replicas: 3''), None), Suc s)"
  by (simp add: example_env_def)

lemma example_Delete:
  "DeleteRelease example_env client rlsName opts s =
     ((Some (example_response Status_DELETED ''Deletion complete'' ''replicas: 2''), None), Suc s)"
  by (simp add: example_env_def)

lemma example_force:
  "UpdateRelease example_env client rlsName ''web-v2''
     [UpdateValueOverrides raw, UpgradeDisableHooks h, UpgradeTimeout t, UpgradeWait wt,
      UpgradeForce True] s =
     ((Some (example_response Status_DEPLOYED ''Upgrade complete'' ''replicas: 3''), None), Suc s)"
  by (simp add: example_env_def UpdateReq_of_def zero_UpdateReq_def)

lemma example_trial:
  "UpdateRelease example_env client rlsName path
     [UpdateValueOverrides raw, UpgradeDisableHooks h, UpgradeTimeout t, UpgradeDryRun True] s =
     ((Some (example_response Status_PENDING_UPGRADE ''Dry run complete''
               (if path = ''web-v1'' then ''replicas: 2'' else ''replicas: 3'')), None), s)"
  by (simp add: example_env_def UpdateReq_of_def zero_UpdateReq_def)

lemma example_upgrade:
  "UpdateRelease example_env client rlsName ''web-v2''
     [UpdateValueOverrides raw, UpgradeDisableHooks h, UpgradeTimeout t, UpgradeWait wt] s =
     ((Some (example_response Status_DEPLOYED ''Upgrade complete'' ''replicas: 3''), None), Suc s)"
  by (simp add: example_env_def UpdateReq_of_def zero_UpdateReq_def)

lemma example_upgrade_bad:
  "UpdateRelease example_env client rlsName ''web-bad''
     [UpdateValueOverrides raw, UpgradeDisableHooks h, UpgradeTimeout t, UpgradeWait wt] s =
     ((None, Some ''timed out waiting for the condition''), Suc s)"
  by (simp add: example_env_def UpdateReq_of_def zero_UpdateReq_def)

lemma example_parse:
  "parse_manifests example_env False
     (Some (example_response code descr mani)) (Some (example_response code' descr' mani')) =
     Some (''default/'' @ mani, ''default/'' @ mani')"
  by (simp add: parse_manifests_def example_env_def example_response_def)

lemma example_diff: "diff_DiffManifests example_env old new suppressed ctx = (old \<noteq> new)"
  by (simp add: example_env_def)

lemmas example_facts = example_Load example_Marshal example_helm_client example_fields
  example_read_web example_read_old example_read_down example_read_new example_not_found
  example_Status_Code example_Description example_Install example_Delete example_force
  example_trial example_upgrade example_upgrade_bad example_parse example_diff

subsection \<open>Goal \<open>present\<close>, release not found\<close>

text \<open>
  C2. \<open>EnsureReleasePresent\<close> reaches the release state reader once the chart is loaded
  and the values are serialized. When the reader then reports the release not found, the
  calls of the run are the read and one install call, made with the chart, the namespace,
  the serialized values, the release name and the hook, timeout and wait flags of the
  struct. When the install call returns no error and a response that holds the release
  information, the result is the description of that response with \<open>changed = true\<close>.
\<close>

theorem install_when_not_found:
  assumes "chartutil_Load env (Wheelie.Chart w) = (chart, None)"
    and "json_Marshal env (Wheelie.Values w) = (rawVals, None)"
    and "ReleaseContent env (helm_client w) (Wheelie.Release w) s = ((releaseResponse, err), s1)"
    and "release_not_found env (Wheelie.Release w) err"
    and "InstallReleaseFromChart env (helm_client w) chart (Wheelie.Namespace w)
           [ValueOverrides rawVals, ReleaseName (Wheelie.Release w),
            InstallDisableHooks (Wheelie.NoHooks w), InstallDisableCRDHook (Wheelie.NoCRDHook w),
            InstallTimeout (Wheelie.Timeout w), InstallWait (Wheelie.Wait w)] s1 = ((res, ierr), s2)"
  shows "snd (EnsureReleasePresent env w (s, tr)) =
           (s2, tr @ [(Call_ReleaseContent (helm_client w) (Wheelie.Release w), err),
                      (Call_InstallReleaseFromChart (helm_client w) chart (Wheelie.Namespace w)
                         [ValueOverrides rawVals, ReleaseName (Wheelie.Release w),
                          InstallDisableHooks (Wheelie.NoHooks w),
                          InstallDisableCRDHook (Wheelie.NoCRDHook w),
                          InstallTimeout (Wheelie.Timeout w), InstallWait (Wheelie.Wait w)],
                       ierr)]) \<and>
         (\<forall>d. ierr = None \<and> response_Description res = Some d \<longrightarrow>
               fst (EnsureReleasePresent env w (s, tr)) = Return (d, True, None))"
  using assms
  by (simp add: EnsureReleasePresent_def do_defs return_Description_def Let_def)

theorem install_when_not_found_witness:
  "snd (EnsureReleasePresent example_env (example_wheelie ''new'' ''web-v2'' True) (0, [])) =
     (1, [(Call_ReleaseContent example_client ''new'',
             Some (''rpc error: release: '' @ double_quoted ''new'' @ '' not found'')),
          (Call_InstallReleaseFromChart example_client ''web-v2'' ''default''
             [ValueOverrides ''{}'', ReleaseName ''new'', InstallDisableHooks False,
              InstallDisableCRDHook False, InstallTimeout 300, InstallWait True],
           None)]) \<and>
   fst (EnsureReleasePresent example_env (example_wheelie ''new'' ''web-v2'' True) (0, [])) =
     Return (''Install complete'', True, None)"
proof -
  let ?w = "example_wheelie ''new'' ''web-v2'' True"
  have load: "chartutil_Load example_env (Wheelie.Chart ?w) = (''web-v2'', None)"
    by (simp add: example_defs)
  have marshal: "json_Marshal example_env (Wheelie.Values ?w) = (''{}'', None)"
    by (simp add: example_defs)
  have read: "ReleaseContent example_env (helm_client ?w) (Wheelie.Release ?w) 0 =
      ((None, Some (''rpc error: release: '' @ double_quoted ''new'' @ '' not found'')), 0)"
    by (simp add: example_defs)
  have not_found: "release_not_found example_env (Wheelie.Release ?w)
      (Some (''rpc error: release: '' @ double_quoted ''new'' @ '' not found''))"
    by (simp add: example_defs)
  have install: "InstallReleaseFromChart example_env (helm_client ?w) ''web-v2'' (Wheelie.Namespace ?w)
      [ValueOverrides ''{}'', ReleaseName (Wheelie.Release ?w),
       InstallDisableHooks (Wheelie.NoHooks ?w), InstallDisableCRDHook (Wheelie.NoCRDHook ?w),
       InstallTimeout (Wheelie.Timeout ?w), InstallWait (Wheelie.Wait ?w)] 0 =
      ((Some (example_response Status_DEPLOYED ''Install complete'' ''replicas: 3''), None), 1)"
    by (simp add: example_defs)
  show ?thesis
    using install_when_not_found [OF load marshal read not_found install, of "[]"]
    by (simp add: example_wheelie_def example_client_def helm_client_def NewClient_def
          response_Description_def example_response_def)
qed

subsection \<open>Goal \<open>present\<close>, release deleted\<close>

text \<open>
  C3. When the reader does not report the release not found and the status of the release
  it returns is \<open>DELETED\<close>, the calls of the run are the read and one upgrade call whose
  request has the force flag set and the dry-run flag clear; no install call is made.
  When the upgrade call returns no error and a response that holds the release
  information, the result is the description of that response with \<open>changed = true\<close>.
\<close>

theorem force_upgrade_when_deleted:
  assumes "chartutil_Load env (Wheelie.Chart w) = (chart, None)"
    and "json_Marshal env (Wheelie.Values w) = (rawVals, None)"
    and "ReleaseContent env (helm_client w) (Wheelie.Release w) s = ((releaseResponse, err), s1)"
    and "\<not> release_not_found env (Wheelie.Release w) err"
    and "response_Status_Code releaseResponse = Some Status_DELETED"
    and "UpdateRelease env (helm_client w) (Wheelie.Release w) (Wheelie.Chart w)
           [UpdateValueOverrides rawVals, UpgradeDisableHooks (Wheelie.NoHooks w),
            UpgradeTimeout (Wheelie.Timeout w), UpgradeWait (Wheelie.Wait w),
            UpgradeForce True] s1 = ((res, uerr), s2)"
  shows "snd (EnsureReleasePresent env w (s, tr)) =
           (s2, tr @ [(Call_ReleaseContent (helm_client w) (Wheelie.Release w), err),
                      (Call_UpdateRelease (helm_client w) (Wheelie.Release w) (Wheelie.Chart w)
                         [UpdateValueOverrides rawVals, UpgradeDisableHooks (Wheelie.NoHooks w),
                          UpgradeTimeout (Wheelie.Timeout w), UpgradeWait (Wheelie.Wait w),
                          UpgradeForce True],
                       uerr)]) \<and>
         upgrades (added (length tr) (snd (EnsureReleasePresent env w (s, tr)))) =
           [(Wheelie.Release w, Wheelie.Chart w,
             \<lparr> req_Values = rawVals, req_DisableHooks = Wheelie.NoHooks w,
               req_Timeout = Wheelie.Timeout w, req_Wait = Wheelie.Wait w,
               req_Force = True, req_DryRun = False \<rparr>)] \<and>
         (\<forall>d. uerr = None \<and> response_Description res = Some d \<longrightarrow>
               fst (EnsureReleasePresent env w (s, tr)) = Return (d, True, None))"
  using assms
  by (simp add: EnsureReleasePresent_def do_defs return_Description_def Let_def
        upgrades_def added_def UpdateReq_of_def zero_UpdateReq_def)

theorem force_upgrade_when_deleted_witness:
  "snd (EnsureReleasePresent example_env (example_wheelie ''old'' ''web-v2'' True) (0, [])) =
     (1, [(Call_ReleaseContent example_client ''old'', None),
          (Call_UpdateRelease example_client ''old'' ''web-v2''
             [UpdateValueOverrides ''{}'', UpgradeDisableHooks False, UpgradeTimeout 300,
              UpgradeWait True, UpgradeForce True],
           None)]) \<and>
   fst (EnsureReleasePresent example_env (example_wheelie ''old'' ''web-v2'' True) (0, [])) =
     Return (''Upgrade complete'', True, None)"
proof -
  let ?w = "example_wheelie ''old'' ''web-v2'' True"
  have load: "chartutil_Load example_env (Wheelie.Chart ?w) = (''web-v2'', None)"
    by (simp add: example_facts)
  have marshal: "json_Marshal example_env (Wheelie.Values ?w) = (''{}'', None)"
    by (simp add: example_facts)
  have read: "ReleaseContent example_env (helm_client ?w) (Wheelie.Release ?w) 0 =
      ((Some (example_response Status_DELETED ''Deletion complete'' ''replicas: 2''), None), 0)"
    by (simp add: example_facts)
  have found: "\<not> release_not_found example_env (Wheelie.Release ?w) None"
    by (simp add: example_facts)
  have deleted: "response_Status_Code
      (Some (example_response Status_DELETED ''Deletion complete'' ''replicas: 2'')) =
      Some Status_DELETED"
    by (simp add: example_facts)
  have upgrade: "UpdateRelease example_env (helm_client ?w) (Wheelie.Release ?w) (Wheelie.Chart ?w)
      [UpdateValueOverrides ''{}'', UpgradeDisableHooks (Wheelie.NoHooks ?w),
       UpgradeTimeout (Wheelie.Timeout ?w), UpgradeWait (Wheelie.Wait ?w), UpgradeForce True] 0 =
      ((Some (example_response Status_DEPLOYED ''Upgrade complete'' ''replicas: 3''), None), 1)"
    by (simp add: example_facts)
  show ?thesis
    using force_upgrade_when_deleted [OF load marshal read found deleted upgrade, of "[]"]
    by (simp add: example_facts)
qed

subsection \<open>Goal \<open>absent\<close> or \<open>purged\<close>\<close>

lemma ensureReleaseAbsent_not_found:
  assumes "ReleaseContent env (helm_client w) (Wheelie.Release w) s = ((releaseResponse, err), s1)"
    and "release_not_found env (Wheelie.Release w) err"
  shows "ensureReleaseAbsent env w purge (s, tr) =
           (Return ('''', False, None),
            (s1, tr @ [(Call_ReleaseContent (helm_client w) (Wheelie.Release w), err)]))"
  using assms by (simp add: ensureReleaseAbsent_def do_defs Let_def)

lemma ensureReleaseAbsent_deleted:
  assumes "ReleaseContent env (helm_client w) (Wheelie.Release w) s = ((releaseResponse, err), s1)"
    and "\<not> release_not_found env (Wheelie.Release w) err"
    and "response_Status_Code releaseResponse = Some Status_DELETED"
  shows "ensureReleaseAbsent env w False (s, tr) =
           (Return ('''', False, None),
            (s1, tr @ [(Call_ReleaseContent (helm_client w) (Wheelie.Release w), err)]))"
  using assms by (simp add: ensureReleaseAbsent_def do_defs Let_def)

lemma ensureReleaseAbsent_delete:
  assumes "ReleaseContent env (helm_client w) (Wheelie.Release w) s = ((releaseResponse, err), s1)"
    and "\<not> release_not_found env (Wheelie.Release w) err"
    and "response_Status_Code releaseResponse = Some code"
    and "code \<noteq> Status_DELETED \<or> purge"
    and "DeleteRelease env (helm_client w) (Wheelie.Release w)
           [DeleteDisableHooks (Wheelie.NoHooks w), DeletePurge purge,
            DeleteTimeout (Wheelie.Timeout w)] s1 = ((res, derr), s2)"
  shows "ensureReleaseAbsent env w purge (s, tr) =
           ((case derr of
               None \<Rightarrow> Return (''release '' @ Wheelie.Release w @ '' deleted'', True, None)
             | Some e \<Rightarrow> Return ('''', False, Some e)),
            (s2, tr @ [(Call_ReleaseContent (helm_client w) (Wheelie.Release w), err),
                       (Call_DeleteRelease (helm_client w) (Wheelie.Release w)
                          [DeleteDisableHooks (Wheelie.NoHooks w), DeletePurge purge,
                           DeleteTimeout (Wheelie.Timeout w)],
                        derr)]))"
  using assms by (auto simp add: ensureReleaseAbsent_def do_defs Let_def split: option.splits)

lemma dispatch_absent_purged:
  "state = stateAbsent \<or> state = statePurged \<Longrightarrow>
     dispatch env state w st = ensureReleaseAbsent env w (state = statePurged) st"
  by (auto simp: dispatch_def EnsureReleaseAbsent_def EnsureReleasePurged_def
        statePresent_def stateAbsent_def statePurged_def)

text \<open>
  C4. With the goal \<open>absent\<close> or \<open>purged\<close> the run reads the release. When the reader
  reports it not found, and when its status is \<open>DELETED\<close> and the goal is \<open>absent\<close>, the
  read is the only call and the result is \<open>changed = false\<close> with an empty message. In
  every other case where a release with a status is returned, one delete call follows
  the read, with the purge flag set exactly when the goal is \<open>purged\<close>; when it returns
  no error the result is \<open>changed = true\<close> with the message \<open>release <name> deleted\<close>.
\<close>

theorem delete_when_absent_or_purged:
  assumes "state = stateAbsent \<or> state = statePurged"
    and "ReleaseContent env (helm_client w) (Wheelie.Release w) s = ((releaseResponse, err), s1)"
    and "DeleteRelease env (helm_client w) (Wheelie.Release w)
           [DeleteDisableHooks (Wheelie.NoHooks w), DeletePurge (state = statePurged),
            DeleteTimeout (Wheelie.Timeout w)] s1 = ((res, derr), s2)"
  shows "(release_not_found env (Wheelie.Release w) err \<longrightarrow>
            dispatch env state w (s, tr) =
              (Return ('''', False, None),
               (s1, tr @ [(Call_ReleaseContent (helm_client w) (Wheelie.Release w), err)]))) \<and>
         (\<not> release_not_found env (Wheelie.Release w) err \<and>
          response_Status_Code releaseResponse = Some Status_DELETED \<and> state = stateAbsent \<longrightarrow>
            dispatch env state w (s, tr) =
              (Return ('''', False, None),
               (s1, tr @ [(Call_ReleaseContent (helm_client w) (Wheelie.Release w), err)]))) \<and>
         (\<forall>code. \<not> release_not_found env (Wheelie.Release w) err \<and>
            response_Status_Code releaseResponse = Some code \<and>
            (code \<noteq> Status_DELETED \<or> state = statePurged) \<longrightarrow>
            snd (dispatch env state w (s, tr)) =
              (s2, tr @ [(Call_ReleaseContent (helm_client w) (Wheelie.Release w), err),
                         (Call_DeleteRelease (helm_client w) (Wheelie.Release w)
                            [DeleteDisableHooks (Wheelie.NoHooks w),
                             DeletePurge (state = statePurged),
                             DeleteTimeout (Wheelie.Timeout w)],
                          derr)]) \<and>
            (derr = None \<longrightarrow>
               fst (dispatch env state w (s, tr)) =
                 Return (''release '' @ Wheelie.Release w @ '' deleted'', True, None)))"
proof (intro conjI impI allI)
  assume "release_not_found env (Wheelie.Release w) err"
  then show "dispatch env state w (s, tr) =
      (Return ('''', False, None),
       (s1, tr @ [(Call_ReleaseContent (helm_client w) (Wheelie.Release w), err)]))"
    using assms(1,2) by (simp add: dispatch_absent_purged ensureReleaseAbsent_not_found)
next
  assume a: "\<not> release_not_found env (Wheelie.Release w) err \<and>
    response_Status_Code releaseResponse = Some Status_DELETED \<and> state = stateAbsent"
  then have "state \<noteq> statePurged"
    by (simp add: stateAbsent_def statePurged_def)
  with a show "dispatch env state w (s, tr) =
      (Return ('''', False, None),
       (s1, tr @ [(Call_ReleaseContent (helm_client w) (Wheelie.Release w), err)]))"
    using assms(1,2) by (simp add: dispatch_absent_purged ensureReleaseAbsent_deleted)
next
  fix code
  assume a: "\<not> release_not_found env (Wheelie.Release w) err \<and>
    response_Status_Code releaseResponse = Some code \<and>
    (code \<noteq> Status_DELETED \<or> state = statePurged)"
  have d: "dispatch env state w (s, tr) = ensureReleaseAbsent env w (state = statePurged) (s, tr)"
    using assms(1) by (rule dispatch_absent_purged)
  note e = ensureReleaseAbsent_delete [OF assms(2) conjunct1 [OF a]
      conjunct1 [OF conjunct2 [OF a]] conjunct2 [OF conjunct2 [OF a]] assms(3), of tr]
  show "snd (dispatch env state w (s, tr)) =
      (s2, tr @ [(Call_ReleaseContent (helm_client w) (Wheelie.Release w), err),
                 (Call_DeleteRelease (helm_client w) (Wheelie.Release w)
                    [DeleteDisableHooks (Wheelie.NoHooks w), DeletePurge (state = statePurged),
                     DeleteTimeout (Wheelie.Timeout w)],
                  derr)])"
    by (simp add: d e)
  assume "derr = None"
  then show "fst (dispatch env state w (s, tr)) =
      Return (''release '' @ Wheelie.Release w @ '' deleted'', True, None)"
    by (simp add: d e)
qed

theorem delete_when_absent_or_purged_witness:
  "dispatch example_env stateAbsent (example_wheelie ''new'' ''web-v2'' True) (0, []) =
     (Return ('''', False, None),
      (0, [(Call_ReleaseContent example_client ''new'',
              Some (''rpc error: release: '' @ double_quoted ''new'' @ '' not found''))])) \<and>
   dispatch example_env stateAbsent (example_wheelie ''old'' ''web-v2'' True) (0, []) =
     (Return ('''', False, None), (0, [(Call_ReleaseContent example_client ''old'', None)])) \<and>
   dispatch example_env statePurged (example_wheelie ''old'' ''web-v2'' True) (0, []) =
     (Return (''release old deleted'', True, None),
      (1, [(Call_ReleaseContent example_client ''old'', None),
           (Call_DeleteRelease example_client ''old''
              [DeleteDisableHooks False, DeletePurge True, DeleteTimeout 300], None)]))"
proof -
  let ?new = "example_wheelie ''new'' ''web-v2'' True"
  let ?old = "example_wheelie ''old'' ''web-v2'' True"
  have read_new: "ReleaseContent example_env (helm_client ?new) (Wheelie.Release ?new) 0 =
      ((None, Some (''rpc error: release: '' @ double_quoted ''new'' @ '' not found'')), 0)"
    by (simp add: example_facts)
  have read_old: "ReleaseContent example_env (helm_client ?old) (Wheelie.Release ?old) 0 =
      ((Some (example_response Status_DELETED ''Deletion complete'' ''replicas: 2''), None), 0)"
    by (simp add: example_facts)
  have del_new: "DeleteRelease example_env (helm_client ?new) (Wheelie.Release ?new)
      [DeleteDisableHooks (Wheelie.NoHooks ?new), DeletePurge (stateAbsent = statePurged),
       DeleteTimeout (Wheelie.Timeout ?new)] 0 =
      ((Some (example_response Status_DELETED ''Deletion complete'' ''replicas: 2''), None), 1)"
    by (simp add: example_facts)
  have del_old: "DeleteRelease example_env (helm_client ?old) (Wheelie.Release ?old)
      [DeleteDisableHooks (Wheelie.NoHooks ?old), DeletePurge (stateAbsent = statePurged),
       DeleteTimeout (Wheelie.Timeout ?old)] 0 =
      ((Some (example_response Status_DELETED ''Deletion complete'' ''replicas: 2''), None), 1)"
    by (simp add: example_facts)
  have purge_old: "DeleteRelease example_env (helm_client ?old) (Wheelie.Release ?old)
      [DeleteDisableHooks (Wheelie.NoHooks ?old), DeletePurge (statePurged = statePurged),
       DeleteTimeout (Wheelie.Timeout ?old)] 0 =
      ((Some (example_response Status_DELETED ''Deletion complete'' ''replicas: 2''), None), 1)"
    by (simp add: example_facts)
  have absent: "stateAbsent = stateAbsent \<or> stateAbsent = statePurged"
    by simp
  have purged: "statePurged = stateAbsent \<or> statePurged = statePurged"
    by simp
  have not_found: "release_not_found example_env (Wheelie.Release ?new)
      (Some (''rpc error: release: '' @ double_quoted ''new'' @ '' not found''))"
    by (simp add: example_defs)
  have deleted_absent: "\<not> release_not_found example_env (Wheelie.Release ?old) None \<and>
      response_Status_Code
        (Some (example_response Status_DELETED ''Deletion complete'' ''replicas: 2'')) =
        Some Status_DELETED \<and> stateAbsent = stateAbsent"
    by (simp add: example_facts)
  have deleted_purged: "\<not> release_not_found example_env (Wheelie.Release ?old) None \<and>
      response_Status_Code
        (Some (example_response Status_DELETED ''Deletion complete'' ''replicas: 2'')) =
        Some Status_DELETED \<and> (Status_DELETED \<noteq> Status_DELETED \<or> statePurged = statePurged)"
    by (simp add: example_facts)
  note c1 = mp [OF conjunct1
      [OF delete_when_absent_or_purged [OF absent read_new del_new, of "[]"]] not_found]
  note c2 = mp [OF conjunct1 [OF conjunct2
      [OF delete_when_absent_or_purged [OF absent read_old del_old, of "[]"]]] deleted_absent]
  note c3 = mp [OF spec [OF conjunct2 [OF conjunct2
      [OF delete_when_absent_or_purged [OF purged read_old purge_old, of "[]"]]],
      of Status_DELETED] deleted_purged]
  show ?thesis
    using c1 c2 c3 by (simp add: example_fields example_helm_client prod_eq_iff)
qed

subsection \<open>Goal \<open>present\<close>, release found and not deleted\<close>

lemma conditional_trial_error:
  assumes "chartutil_Load env (Wheelie.Chart w) = (chart, None)"
    and "json_Marshal env (Wheelie.Values w) = (rawVals, None)"
    and "ReleaseContent env (helm_client w) (Wheelie.Release w) s = ((releaseResponse, err), s1)"
    and "\<not> release_not_found env (Wheelie.Release w) err"
    and "response_Status_Code releaseResponse = Some code"
    and "code \<noteq> Status_DELETED"
    and "UpdateRelease env (helm_client w) (Wheelie.Release w) (Wheelie.Chart w)
           [UpdateValueOverrides rawVals, UpgradeDisableHooks (Wheelie.NoHooks w),
            UpgradeTimeout (Wheelie.Timeout w), UpgradeDryRun True] s1 =
           ((dryRunResponse, Some e), s2)"
  shows "EnsureReleasePresent env w (s, tr) =
           (Return ('''', False, Some e),
            (s2, tr @ [(Call_ReleaseContent (helm_client w) (Wheelie.Release w), err),
                       (Call_UpdateRelease (helm_client w) (Wheelie.Release w) (Wheelie.Chart w)
                          [UpdateValueOverrides rawVals, UpgradeDisableHooks (Wheelie.NoHooks w),
                           UpgradeTimeout (Wheelie.Timeout w), UpgradeDryRun True],
                        Some e)]))"
  using assms
  by (simp add: EnsureReleasePresent_def do_defs Let_def)

lemma conditional_no_diff:
  assumes "chartutil_Load env (Wheelie.Chart w) = (chart, None)"
    and "json_Marshal env (Wheelie.Values w) = (rawVals, None)"
    and "ReleaseContent env (helm_client w) (Wheelie.Release w) s = ((releaseResponse, err), s1)"
    and "\<not> release_not_found env (Wheelie.Release w) err"
    and "response_Status_Code releaseResponse = Some code"
    and "code \<noteq> Status_DELETED"
    and "UpdateRelease env (helm_client w) (Wheelie.Release w) (Wheelie.Chart w)
           [UpdateValueOverrides rawVals, UpgradeDisableHooks (Wheelie.NoHooks w),
            UpgradeTimeout (Wheelie.Timeout w), UpgradeDryRun True] s1 =
           ((dryRunResponse, None), s2)"
    and "differ_reports env (Wheelie.NoHooks w) releaseResponse dryRunResponse \<noteq> Some True"
  shows "EnsureReleasePresent env w (s, tr) =
           ((case differ_reports env (Wheelie.NoHooks w) releaseResponse dryRunResponse of
               None \<Rightarrow> Panic
             | Some b \<Rightarrow> Return ('''', False, None)),
            (s2, tr @ [(Call_ReleaseContent (helm_client w) (Wheelie.Release w), err),
                       (Call_UpdateRelease (helm_client w) (Wheelie.Release w) (Wheelie.Chart w)
                          [UpdateValueOverrides rawVals, UpgradeDisableHooks (Wheelie.NoHooks w),
                           UpgradeTimeout (Wheelie.Timeout w), UpgradeDryRun True],
                        None)]))"
  using assms
  by (auto simp add: EnsureReleasePresent_def do_defs Let_def differ_reports_def
        split: option.splits)

lemma conditional_diff:
  assumes "chartutil_Load env (Wheelie.Chart w) = (chart, None)"
    and "json_Marshal env (Wheelie.Values w) = (rawVals, None)"
    and "ReleaseContent env (helm_client w) (Wheelie.Release w) s = ((releaseResponse, err), s1)"
    and "\<not> release_not_found env (Wheelie.Release w) err"
    and "response_Status_Code releaseResponse = Some code"
    and "code \<noteq> Status_DELETED"
    and "UpdateRelease env (helm_client w) (Wheelie.Release w) (Wheelie.Chart w)
           [UpdateValueOverrides rawVals, UpgradeDisableHooks (Wheelie.NoHooks w),
            UpgradeTimeout (Wheelie.Timeout w), UpgradeDryRun True] s1 =
           ((dryRunResponse, None), s2)"
    and "differ_reports env (Wheelie.NoHooks w) releaseResponse dryRunResponse = Some True"
    and "UpdateRelease env (helm_client w) (Wheelie.Release w) (Wheelie.Chart w)
           [UpdateValueOverrides rawVals, UpgradeDisableHooks (Wheelie.NoHooks w),
            UpgradeTimeout (Wheelie.Timeout w), UpgradeWait (Wheelie.Wait w)] s2 =
           ((res, uerr), s3)"
  shows "EnsureReleasePresent env w (s, tr) =
           (return_Description res uerr,
            (s3, tr @ [(Call_ReleaseContent (helm_client w) (Wheelie.Release w), err),
                       (Call_UpdateRelease (helm_client w) (Wheelie.Release w) (Wheelie.Chart w)
                          [UpdateValueOverrides rawVals, UpgradeDisableHooks (Wheelie.NoHooks w),
                           UpgradeTimeout (Wheelie.Timeout w), UpgradeDryRun True],
                        None),
                       (Call_UpdateRelease (helm_client w) (Wheelie.Release w) (Wheelie.Chart w)
                          [UpdateValueOverrides rawVals, UpgradeDisableHooks (Wheelie.NoHooks w),
                           UpgradeTimeout (Wheelie.Timeout w), UpgradeWait (Wheelie.Wait w)],
                        uerr)]))"
  using assms
  by (auto simp add: EnsureReleasePresent_def do_defs Let_def differ_reports_def
        split: option.splits)

lemma upgrades_simps:
  "upgrades [] = []"
  "upgrades ((Call_ReleaseContent client rlsName, err) # evs) = upgrades evs"
  "upgrades ((Call_InstallReleaseFromChart client chart ns iopts, err) # evs) = upgrades evs"
  "upgrades ((Call_DeleteRelease client rlsName dopts, err) # evs) = upgrades evs"
  "upgrades ((Call_portforwarder_New ns, err) # evs) = upgrades evs"
  "upgrades ((Call_UpdateRelease client rlsName chartPath opts, err) # evs) =
     (rlsName, chartPath, UpdateReq_of opts) # upgrades evs"
  by (simp_all add: upgrades_def)

lemma added_append: "added (length tr) (s, tr @ evs) = evs"
  by (simp add: added_def)

lemma UpdateReq_of_trial:
  "UpdateReq_of [UpdateValueOverrides raw, UpgradeDisableHooks h, UpgradeTimeout t,
                 UpgradeDryRun True] =
     \<lparr> req_Values = raw, req_DisableHooks = h, req_Timeout = t, req_Wait = False,
       req_Force = False, req_DryRun = True \<rparr>"
  by (simp add: UpdateReq_of_def zero_UpdateReq_def)

lemma UpdateReq_of_upgrade:
  "UpdateReq_of [UpdateValueOverrides raw, UpgradeDisableHooks h, UpgradeTimeout t,
                 UpgradeWait wt] =
     \<lparr> req_Values = raw, req_DisableHooks = h, req_Timeout = t, req_Wait = wt,
       req_Force = False, req_DryRun = False \<rparr>"
  by (simp add: UpdateReq_of_def zero_UpdateReq_def)

lemma UpdateReq_of_force:
  "UpdateReq_of [UpdateValueOverrides raw, UpgradeDisableHooks h, UpgradeTimeout t,
                 UpgradeWait wt, UpgradeForce True] =
     \<lparr> req_Values = raw, req_DisableHooks = h, req_Timeout = t, req_Wait = wt,
       req_Force = True, req_DryRun = False \<rparr>"
  by (simp add: UpdateReq_of_def zero_UpdateReq_def)

lemmas UpdateReq_of_simps = UpdateReq_of_trial UpdateReq_of_upgrade UpdateReq_of_force

text \<open>
  C1, as the code has it. When the release is found and its status is not \<open>DELETED\<close>, the
  run makes exactly one dry-run upgrade call, and after it a real upgrade call (force and
  dry-run flags clear) exactly when the dry run returned no error and the manifest differ
  reports differences. When the differ reports no differences, the read and the dry run
  are the only calls and the result is \<open>changed = false\<close> with an empty message. When it
  reports differences, the result is \<open>changed = true\<close> with the description of the
  response if the real upgrade returns no error, and the error of the upgrade with
  \<open>changed = false\<close> if it returns one.
\<close>

theorem conditional_upgrade:
  assumes "chartutil_Load env (Wheelie.Chart w) = (chart, None)"
    and "json_Marshal env (Wheelie.Values w) = (rawVals, None)"
    and "ReleaseContent env (helm_client w) (Wheelie.Release w) s = ((releaseResponse, err), s1)"
    and "\<not> release_not_found env (Wheelie.Release w) err"
    and "response_Status_Code releaseResponse = Some code"
    and "code \<noteq> Status_DELETED"
    and "UpdateRelease env (helm_client w) (Wheelie.Release w) (Wheelie.Chart w)
           [UpdateValueOverrides rawVals, UpgradeDisableHooks (Wheelie.NoHooks w),
            UpgradeTimeout (Wheelie.Timeout w), UpgradeDryRun True] s1 =
           ((dryRunResponse, terr), s2)"
    and "UpdateRelease env (helm_client w) (Wheelie.Release w) (Wheelie.Chart w)
           [UpdateValueOverrides rawVals, UpgradeDisableHooks (Wheelie.NoHooks w),
            UpgradeTimeout (Wheelie.Timeout w), UpgradeWait (Wheelie.Wait w)] s2 =
           ((res, uerr), s3)"
  shows "upgrades (added (length tr) (snd (EnsureReleasePresent env w (s, tr)))) =
           (Wheelie.Release w, Wheelie.Chart w,
            \<lparr> req_Values = rawVals, req_DisableHooks = Wheelie.NoHooks w,
              req_Timeout = Wheelie.Timeout w, req_Wait = False,
              req_Force = False, req_DryRun = True \<rparr>) #
           (if terr = None \<and>
               differ_reports env (Wheelie.NoHooks w) releaseResponse dryRunResponse = Some True
            then [(Wheelie.Release w, Wheelie.Chart w,
                   \<lparr> req_Values = rawVals, req_DisableHooks = Wheelie.NoHooks w,
                     req_Timeout = Wheelie.Timeout w, req_Wait = Wheelie.Wait w,
                     req_Force = False, req_DryRun = False \<rparr>)]
            else []) \<and>
         (terr = None \<and>
          differ_reports env (Wheelie.NoHooks w) releaseResponse dryRunResponse = Some False \<longrightarrow>
            commits (added (length tr) (snd (EnsureReleasePresent env w (s, tr)))) = [] \<and>
            fst (EnsureReleasePresent env w (s, tr)) = Return ('''', False, None)) \<and>
         (terr = None \<and>
          differ_reports env (Wheelie.NoHooks w) releaseResponse dryRunResponse = Some True \<longrightarrow>
            (\<forall>d. uerr = None \<and> response_Description res = Some d \<longrightarrow>
                  fst (EnsureReleasePresent env w (s, tr)) = Return (d, True, None)) \<and>
            (\<forall>e. uerr = Some e \<longrightarrow>
                  fst (EnsureReleasePresent env w (s, tr)) = Return ('''', False, Some e)))"
proof (cases terr)
  case (Some e)
  with conditional_trial_error [OF assms(1-6), of dryRunResponse e s2 tr] assms(7)
  show ?thesis
    by (simp add: added_append upgrades_simps UpdateReq_of_simps)
next
  case None
  show ?thesis
  proof (cases "differ_reports env (Wheelie.NoHooks w) releaseResponse dryRunResponse = Some True")
    case True
    with None conditional_diff [OF assms(1-6) _ _ assms(8), of dryRunResponse tr] assms(7)
    show ?thesis
      by (simp add: added_append upgrades_simps UpdateReq_of_simps return_Description_def)
  next
    case False
    with None conditional_no_diff [OF assms(1-6), of dryRunResponse s2 tr] assms(7)
    show ?thesis
      by (auto simp add: added_append upgrades_simps UpdateReq_of_simps commits_def)
  qed
qed

theorem conditional_upgrade_witness:
  "upgrades (added (length ([]::string event list))
      (snd (EnsureReleasePresent example_env (example_wheelie ''web'' ''web-v2'' True) (0, [])))) =
     [(''web'', ''web-v2'',
       \<lparr> req_Values = ''{}'', req_DisableHooks = False, req_Timeout = 300, req_Wait = False,
         req_Force = False, req_DryRun = True \<rparr>),
      (''web'', ''web-v2'',
       \<lparr> req_Values = ''{}'', req_DisableHooks = False, req_Timeout = 300, req_Wait = True,
         req_Force = False, req_DryRun = False \<rparr>)] \<and>
   fst (EnsureReleasePresent example_env (example_wheelie ''web'' ''web-v2'' True) (0, [])) =
     Return (''Upgrade complete'', True, None) \<and>
   upgrades (added (length ([]::string event list))
      (snd (EnsureReleasePresent example_env (example_wheelie ''web'' ''web-v1'' True) (0, [])))) =
     [(''web'', ''web-v1'',
       \<lparr> req_Values = ''{}'', req_DisableHooks = False, req_Timeout = 300, req_Wait = False,
         req_Force = False, req_DryRun = True \<rparr>)] \<and>
   commits (added (length ([]::string event list))
      (snd (EnsureReleasePresent example_env (example_wheelie ''web'' ''web-v1'' True) (0, [])))) =
     [] \<and>
   fst (EnsureReleasePresent example_env (example_wheelie ''web'' ''web-v1'' True) (0, [])) =
     Return ('''', False, None)"
proof -
  let ?v2 = "example_wheelie ''web'' ''web-v2'' True"
  let ?v1 = "example_wheelie ''web'' ''web-v1'' True"
  let ?cur = "Some (example_response Status_DEPLOYED ''Upgrade complete'' ''replicas: 2'')"
  let ?dry2 = "Some (example_response Status_PENDING_UPGRADE ''Dry run complete'' ''replicas: 3'')"
  let ?dry1 = "Some (example_response Status_PENDING_UPGRADE ''Dry run complete'' ''replicas: 2'')"
  let ?res = "Some (example_response Status_DEPLOYED ''Upgrade complete'' ''replicas: 3'')"
  have load2: "chartutil_Load example_env (Wheelie.Chart ?v2) = (''web-v2'', None)"
    and load1: "chartutil_Load example_env (Wheelie.Chart ?v1) = (''web-v1'', None)"
    by (simp_all add: example_facts)
  have marshal2: "json_Marshal example_env (Wheelie.Values ?v2) = (''{}'', None)"
    and marshal1: "json_Marshal example_env (Wheelie.Values ?v1) = (''{}'', None)"
    by (simp_all add: example_facts)
  have read2: "ReleaseContent example_env (helm_client ?v2) (Wheelie.Release ?v2) 0 = ((?cur, None), 0)"
    and read1: "ReleaseContent example_env (helm_client ?v1) (Wheelie.Release ?v1) 0 = ((?cur, None), 0)"
    by (simp_all add: example_facts)
  have found2: "\<not> release_not_found example_env (Wheelie.Release ?v2) None"
    and found1: "\<not> release_not_found example_env (Wheelie.Release ?v1) None"
    by (simp_all add: example_facts)
  have status: "response_Status_Code ?cur = Some Status_DEPLOYED"
    by (simp add: example_facts)
  have not_deleted: "Status_DEPLOYED \<noteq> Status_DELETED"
    by simp
  have trial2: "UpdateRelease example_env (helm_client ?v2) (Wheelie.Release ?v2) (Wheelie.Chart ?v2)
      [UpdateValueOverrides ''{}'', UpgradeDisableHooks (Wheelie.NoHooks ?v2),
       UpgradeTimeout (Wheelie.Timeout ?v2), UpgradeDryRun True] 0 = ((?dry2, None), 0)"
    by (simp add: example_facts)
  have trial1: "UpdateRelease example_env (helm_client ?v1) (Wheelie.Release ?v1) (Wheelie.Chart ?v1)
      [UpdateValueOverrides ''{}'', UpgradeDisableHooks (Wheelie.NoHooks ?v1),
       UpgradeTimeout (Wheelie.Timeout ?v1), UpgradeDryRun True] 0 = ((?dry1, None), 0)"
    by (simp add: example_facts)
  have real2: "UpdateRelease example_env (helm_client ?v2) (Wheelie.Release ?v2) (Wheelie.Chart ?v2)
      [UpdateValueOverrides ''{}'', UpgradeDisableHooks (Wheelie.NoHooks ?v2),
       UpgradeTimeout (Wheelie.Timeout ?v2), UpgradeWait (Wheelie.Wait ?v2)] 0 = ((?res, None), 1)"
    by (simp add: example_facts)
  have real1: "UpdateRelease example_env (helm_client ?v1) (Wheelie.Release ?v1) (Wheelie.Chart ?v1)
      [UpdateValueOverrides ''{}'', UpgradeDisableHooks (Wheelie.NoHooks ?v1),
       UpgradeTimeout (Wheelie.Timeout ?v1), UpgradeWait (Wheelie.Wait ?v1)] 0 = ((?res, None), 1)"
    by (simp add: example_facts example_env_def UpdateReq_of_def zero_UpdateReq_def)
  have differ2: "differ_reports example_env (Wheelie.NoHooks ?v2) ?cur ?dry2 = Some True"
    by (simp add: differ_reports_def example_facts)
  have differ1: "differ_reports example_env (Wheelie.NoHooks ?v1) ?cur ?dry1 = Some False"
    by (simp add: differ_reports_def example_facts)
  note t2 = conditional_upgrade
    [OF load2 marshal2 read2 found2 status not_deleted trial2 real2, of "[]"]
  note t1 = conditional_upgrade
    [OF load1 marshal1 read1 found1 status not_deleted trial1 real1, of "[]"]
  show ?thesis
    using t2 differ2 t1 differ1
    by (simp add: example_facts)
qed

text \<open>
  C1 as it is written fails where the differ reports differences and the real upgrade
  returns an error: the release \<open>web\<close> is found and deployed, the chart \<open>web-bad\<close> renders
  a manifest that differs, the upgrade times out, and the result is the error with
  \<open>changed = false\<close>.
\<close>

theorem conditional_upgrade_counterexample:
  "ReleaseContent example_env example_client ''web'' 0 =
     ((Some (example_response Status_DEPLOYED ''Upgrade complete'' ''replicas: 2''), None), 0) \<and>
   response_Status_Code
     (Some (example_response Status_DEPLOYED ''Upgrade complete'' ''replicas: 2'')) =
     Some Status_DEPLOYED \<and>
   differ_reports example_env False
     (Some (example_response Status_DEPLOYED ''Upgrade complete'' ''replicas: 2''))
     (Some (example_response Status_PENDING_UPGRADE ''Dry run complete'' ''replicas: 3'')) =
     Some True \<and>
   EnsureReleasePresent example_env (example_wheelie ''web'' ''web-bad'' True) (0, []) =
     (Return ('''', False, Some ''timed out waiting for the condition''),
      (1, [(Call_ReleaseContent example_client ''web'', None),
           (Call_UpdateRelease example_client ''web'' ''web-bad''
              [UpdateValueOverrides ''{}'', UpgradeDisableHooks False, UpgradeTimeout 300,
               UpgradeDryRun True], None),
           (Call_UpdateRelease example_client ''web'' ''web-bad''
              [UpdateValueOverrides ''{}'', UpgradeDisableHooks False, UpgradeTimeout 300,
               UpgradeWait True],
            Some ''timed out waiting for the condition'')]))"
  by (simp add: EnsureReleasePresent_def do_defs Let_def return_Description_def
        differ_reports_def example_defs)

subsection \<open>The inputs of the dry run and of the real upgrade\<close>

text \<open>
  C8, as the code has it. In the conditional branch, when the dry run returns no error and
  the differ reports differences, the upgrade calls of the run are the dry run and the real
  upgrade, in this order. Both are made for the same release name and chart path, and the
  request of the dry run has the serialized values, the hook-disable flag and the timeout
  of the request of the real upgrade. The dry run is not given the wait flag: its request
  has the dry-run flag set and the wait flag clear, while the request of the real upgrade
  has the wait flag of the struct.
\<close>

theorem trial_inputs:
  assumes "chartutil_Load env (Wheelie.Chart w) = (chart, None)"
    and "json_Marshal env (Wheelie.Values w) = (rawVals, None)"
    and "ReleaseContent env (helm_client w) (Wheelie.Release w) s = ((releaseResponse, err), s1)"
    and "\<not> release_not_found env (Wheelie.Release w) err"
    and "response_Status_Code releaseResponse = Some code"
    and "code \<noteq> Status_DELETED"
    and "UpdateRelease env (helm_client w) (Wheelie.Release w) (Wheelie.Chart w)
           [UpdateValueOverrides rawVals, UpgradeDisableHooks (Wheelie.NoHooks w),
            UpgradeTimeout (Wheelie.Timeout w), UpgradeDryRun True] s1 =
           ((dryRunResponse, None), s2)"
    and "differ_reports env (Wheelie.NoHooks w) releaseResponse dryRunResponse = Some True"
  shows "(let real = \<lparr> req_Values = rawVals, req_DisableHooks = Wheelie.NoHooks w,
                       req_Timeout = Wheelie.Timeout w, req_Wait = Wheelie.Wait w,
                       req_Force = False, req_DryRun = False \<rparr>
          in upgrades (added (length tr) (snd (EnsureReleasePresent env w (s, tr)))) =
               [(Wheelie.Release w, Wheelie.Chart w, real\<lparr>req_Wait := False, req_DryRun := True\<rparr>),
                (Wheelie.Release w, Wheelie.Chart w, real)])"
proof -
  obtain res uerr s3 where real:
    "UpdateRelease env (helm_client w) (Wheelie.Release w) (Wheelie.Chart w)
       [UpdateValueOverrides rawVals, UpgradeDisableHooks (Wheelie.NoHooks w),
        UpgradeTimeout (Wheelie.Timeout w), UpgradeWait (Wheelie.Wait w)] s2 =
       ((res, uerr), s3)"
    by (metis surj_pair)
  show ?thesis
    using conditional_diff [OF assms real, of tr]
    by (simp add: added_append upgrades_simps UpdateReq_of_simps)
qed

theorem trial_inputs_witness:
  "upgrades (added (length ([]::string event list))
      (snd (EnsureReleasePresent example_env (example_wheelie ''web'' ''web-v2'' False) (0, [])))) =
     [(''web'', ''web-v2'',
       \<lparr> req_Values = ''{}'', req_DisableHooks = False, req_Timeout = 300, req_Wait = False,
         req_Force = False, req_DryRun = True \<rparr>),
      (''web'', ''web-v2'',
       \<lparr> req_Values = ''{}'', req_DisableHooks = False, req_Timeout = 300, req_Wait = False,
         req_Force = False, req_DryRun = False \<rparr>)]"
proof -
  let ?w = "example_wheelie ''web'' ''web-v2'' False"
  let ?cur = "Some (example_response Status_DEPLOYED ''Upgrade complete'' ''replicas: 2'')"
  let ?dry = "Some (example_response Status_PENDING_UPGRADE ''Dry run complete'' ''replicas: 3'')"
  have load: "chartutil_Load example_env (Wheelie.Chart ?w) = (''web-v2'', None)"
    by (simp add: example_facts)
  have marshal: "json_Marshal example_env (Wheelie.Values ?w) = (''{}'', None)"
    by (simp add: example_facts)
  have read: "ReleaseContent example_env (helm_client ?w) (Wheelie.Release ?w) 0 = ((?cur, None), 0)"
    by (simp add: example_facts)
  have found: "\<not> release_not_found example_env (Wheelie.Release ?w) None"
    by (simp add: example_facts)
  have status: "response_Status_Code ?cur = Some Status_DEPLOYED"
    by (simp add: example_facts)
  have not_deleted: "Status_DEPLOYED \<noteq> Status_DELETED"
    by simp
  have trial: "UpdateRelease example_env (helm_client ?w) (Wheelie.Release ?w) (Wheelie.Chart ?w)
      [UpdateValueOverrides ''{}'', UpgradeDisableHooks (Wheelie.NoHooks ?w),
       UpgradeTimeout (Wheelie.Timeout ?w), UpgradeDryRun True] 0 = ((?dry, None), 0)"
    by (simp add: example_facts)
  have differ: "differ_reports example_env (Wheelie.NoHooks ?w) ?cur ?dry = Some True"
    by (simp add: differ_reports_def example_facts)
  show ?thesis
    using trial_inputs [OF load marshal read found status not_deleted trial differ, of "[]"]
    by (simp add: example_facts)
qed

text \<open>
  C8 as it is written fails when the struct asks to wait: the real upgrade of the release
  \<open>web\<close> is made with the wait flag set and its dry run with the wait flag clear, so the
  two requests differ in more than the dry-run flag.
\<close>

theorem trial_inputs_counterexample:
  "upgrades (added 0
      (snd (EnsureReleasePresent example_env (example_wheelie ''web'' ''web-v2'' True) (0, [])))) =
     [(''web'', ''web-v2'',
       \<lparr> req_Values = ''{}'', req_DisableHooks = False, req_Timeout = 300, req_Wait = False,
         req_Force = False, req_DryRun = True \<rparr>),
      (''web'', ''web-v2'',
       \<lparr> req_Values = ''{}'', req_DisableHooks = False, req_Timeout = 300, req_Wait = True,
         req_Force = False, req_DryRun = False \<rparr>)] \<and>
   \<lparr> req_Values = ''{}'', req_DisableHooks = False, req_Timeout = 300, req_Wait = False,
     req_Force = False, req_DryRun = True \<rparr> \<noteq>
   \<lparr> req_Values = ''{}'', req_DisableHooks = False, req_Timeout = 300, req_Wait = True,
     req_Force = False, req_DryRun = False \<rparr>\<lparr>req_DryRun := True\<rparr>"
  by (simp add: EnsureReleasePresent_def do_defs Let_def return_Description_def
        example_defs added_def upgrades_simps UpdateReq_of_simps)

subsection \<open>One action for each reconciliation\<close>

lemma EnsureReleasePresent_one_action:
  "EnsureReleasePresent env w (s, tr) = r \<Longrightarrow> one_action (length tr) r"
  by (auto simp add: EnsureReleasePresent_def do_defs Let_def one_action_def added_def
        actions_def commits_def committed_def return_Description_def
        UpdateReq_of_simps
        split: prod.splits option.splits if_splits)

lemma ensureReleaseAbsent_one_action:
  "ensureReleaseAbsent env w purge (s, tr) = r \<Longrightarrow> one_action (length tr) r"
  by (auto simp add: ensureReleaseAbsent_def do_defs Let_def one_action_def added_def
        actions_def commits_def committed_def
        split: prod.splits option.splits if_splits)

text \<open>
  C7. Whatever the backend answers, the calls that a run of \<open>EnsureReleasePresent\<close> or of
  \<open>ensureReleaseAbsent\<close> adds to the log belong to exactly one action class (the no-op
  when none of them commits), at most one of them is a committing call, and when the run
  returns, \<open>changed\<close> is true exactly when a committing call was made and returned no
  error; a result that carries an error has \<open>changed = false\<close>.
\<close>

theorem reconciliation_one_action:
  "one_action (length tr) (EnsureReleasePresent env w (s, tr)) \<and>
   one_action (length tr) (ensureReleaseAbsent env w purge (s, tr))"
  by (simp add: EnsureReleasePresent_one_action ensureReleaseAbsent_one_action)

theorem reconciliation_one_action_witness:
  "fst (EnsureReleasePresent example_env (example_wheelie ''web'' ''web-bad'' True) (0, [])) =
     Return ('''', False, Some ''timed out waiting for the condition'') \<and>
   length (actions (added 0
     (snd (EnsureReleasePresent example_env (example_wheelie ''web'' ''web-bad'' True) (0, []))))) = 1 \<and>
   length (commits (added 0
     (snd (EnsureReleasePresent example_env (example_wheelie ''web'' ''web-bad'' True) (0, []))))) \<le> 1 \<and>
   \<not> committed (added 0
     (snd (EnsureReleasePresent example_env (example_wheelie ''web'' ''web-bad'' True) (0, [])))) \<and>
   fst (ensureReleaseAbsent example_env (example_wheelie ''old'' ''web-v2'' True) True (0, [])) =
     Return (''release old deleted'', True, None) \<and>
   committed (added 0
     (snd (ensureReleaseAbsent example_env (example_wheelie ''old'' ''web-v2'' True) True (0, []))))"
proof -
  have present:
    "fst (EnsureReleasePresent example_env (example_wheelie ''web'' ''web-bad'' True) (0, [])) =
       Return ('''', False, Some ''timed out waiting for the condition'')"
    by (simp add: EnsureReleasePresent_def do_defs Let_def return_Description_def example_defs)
  have absent:
    "fst (ensureReleaseAbsent example_env (example_wheelie ''old'' ''web-v2'' True) True (0, [])) =
       Return (''release old deleted'', True, None)"
    by (simp add: ensureReleaseAbsent_def do_defs Let_def example_defs)
  show ?thesis
    using present absent
      reconciliation_one_action
        [of "[]" example_env "example_wheelie ''web'' ''web-bad'' True" 0 True]
      reconciliation_one_action
        [of "[]" example_env "example_wheelie ''old'' ''web-v2'' True" 0 True]
    by (simp add: one_action_def Let_def)
qed

subsection \<open>An error of the release state reader\<close>

text \<open>
  C6 asks that an error of the reader other than not-found is returned to the caller.
  The code tests the error of \<open>ReleaseContent\<close> only for the not-found text. Any other
  error falls through to the read of \<open>releaseResponse.Release.Info.Status.Code\<close>; helm's
  client returns a nil response with an error, so the run stops in a nil dereference, and
  neither function returns the error. Here tiller cannot be reached for the release
  \<open>down\<close>.
\<close>

theorem read_error_not_returned:
  "ReleaseContent example_env example_client ''down'' 0 =
     ((None, Some ''connection refused''), 0) \<and>
   \<not> release_not_found example_env ''down'' (Some ''connection refused'') \<and>
   EnsureReleasePresent example_env (example_wheelie ''down'' ''web-v2'' True) (0, []) =
     (Panic, (0, [(Call_ReleaseContent example_client ''down'', Some ''connection refused'')])) \<and>
   ensureReleaseAbsent example_env (example_wheelie ''down'' ''web-v2'' True) False (0, []) =
     (Panic, (0, [(Call_ReleaseContent example_client ''down'', Some ''connection refused'')]))"
  by (simp add: EnsureReleasePresent_def ensureReleaseAbsent_def do_defs Let_def example_defs)

section \<open>The state of the module\<close>

lemma fail_Output:
  "Failed (Output (fst (fail io m msg)))"
  "Msg (Output (fst (fail io m msg))) = msg"
  "Input (fst (fail io m msg)) = Input m"
  by (simp_all add: fail_def respondJSON_def Let_def split: prod.splits option.splits)

lemma reported_Return:
  "reported (Return p) = Some (Failed (Output (fst p)), Msg (Output (fst p)))"
  by (cases p) (simp add: reported_def)

lemma ForwardTillerPort_log:
  "ForwardTillerPort kenv w (s, tr) = (fr, w1, st1) \<Longrightarrow>
     \<forall>ev \<in> set (added (length tr) st1). \<not> helm_call (fst ev)"
  by (auto simp add: ForwardTillerPort_def do_portforwarder_New_def added_def
        split: prod.splits option.splits)

lemma Run_invalid_state:
  assumes "length (os_Args io) = 2"
    and "ioutil_ReadFile io (os_Args io ! 1) = (text, None)"
    and "json_Unmarshal io text (Input m0) = (inp, None)"
    and "State (Input (setDefaultInputs (m0\<lparr>Input := inp\<rparr>))) \<notin>
           {statePresent, stateAbsent, statePurged}"
    and "ForwardTillerPort kenv
           (Wheelie_of_Input (Input (setDefaultInputs (m0\<lparr>Input := inp\<rparr>)))) (s, tr) =
           (fr, w1, st1)"
  shows "Run io kenv env m0 (s, tr) =
           ((case fr of
               Panic \<Rightarrow> Panic
             | Return None \<Rightarrow> Return (fail io (setDefaultInputs (m0\<lparr>Input := inp\<rparr>)) state_error)
             | Return (Some e) \<Rightarrow>
                 Return (fail io (setDefaultInputs (m0\<lparr>Input := inp\<rparr>))
                           (''unable to forward tiller port: '' @ e))),
            st1)"
  using assms
  by (simp add: Run_def dispatch_def Let_def split: outcome.splits option.splits
        cong: let_weak_cong)

text \<open>
  C5, as the code has it. When the state of the normalized input is none of \<open>present\<close>,
  \<open>absent\<close> and \<open>purged\<close>, the program first forwards the tiller port and only then
  rejects the state. It makes no call of the helm client (no release read, no install,
  upgrade or delete): the world it leaves is the one the port forwarding leaves. When the
  port forwarding succeeds the module fails with the message that names the three states;
  when the port forwarding returns an error the module fails with that error, and the
  state is not reported.
\<close>

theorem invalid_state_fails:
  assumes "length (os_Args io) = 2"
    and "ioutil_ReadFile io (os_Args io ! 1) = (text, None)"
    and "json_Unmarshal io text (Input m0) = (inp, None)"
    and "State (Input (setDefaultInputs (m0\<lparr>Input := inp\<rparr>))) \<notin>
           {statePresent, stateAbsent, statePurged}"
    and "ForwardTillerPort kenv
           (Wheelie_of_Input (Input (setDefaultInputs (m0\<lparr>Input := inp\<rparr>)))) (s, tr) =
           (fr, w1, st1)"
  shows "snd (Run io kenv env m0 (s, tr)) = st1 \<and>
         (\<forall>ev \<in> set (added (length tr) (snd (Run io kenv env m0 (s, tr)))).
             \<not> helm_call (fst ev)) \<and>
         (fr = Return None \<longrightarrow>
            reported (fst (Run io kenv env m0 (s, tr))) =
              Some (True, state_error)) \<and>
         (\<forall>e. fr = Return (Some e) \<longrightarrow>
            reported (fst (Run io kenv env m0 (s, tr))) =
              Some (True, ''unable to forward tiller port: '' @ e))"
proof -
  note run = Run_invalid_state [OF assms, of env]
  have log: "\<forall>ev \<in> set (added (length tr) st1). \<not> helm_call (fst ev)"
    using assms(5) by (rule ForwardTillerPort_log)
  have ok: "fr = Return None \<Longrightarrow>
      reported (fst (Run io kenv env m0 (s, tr))) = Some (True, state_error)"
    by (simp add: run reported_Return fail_Output)
  have err: "\<And>e. fr = Return (Some e) \<Longrightarrow>
      reported (fst (Run io kenv env m0 (s, tr))) =
        Some (True, ''unable to forward tiller port: '' @ e)"
    by (simp add: run reported_Return fail_Output)
  show ?thesis
    using log ok err by (simp add: run)
qed

lemma example_io_facts:
  "length (os_Args (example_io state)) = 2"
  "ioutil_ReadFile (example_io state) (os_Args (example_io state) ! 1) = (state, None)"
  "json_Unmarshal (example_io state) state (Input example_module) =
     (zero_ModuleInput\<lparr>State := state, ModuleInput.Release := ''web'',
                       ModuleInput.Chart := ''web-v2''\<rparr>, None)"
  by (simp_all add: example_io_def example_module_def)

lemma example_state:
  "State (Input (setDefaultInputs (example_module\<lparr>Input :=
      zero_ModuleInput\<lparr>State := ''destroyed'', ModuleInput.Release := ''web'',
                        ModuleInput.Chart := ''web-v2''\<rparr>\<rparr>))) = ''destroyed''"
  by (simp add: setDefaultInputs_eq)

lemma example_TillerNamespace:
  "Wheelie.TillerNamespace (Wheelie_of_Input (Input (setDefaultInputs (example_module\<lparr>Input :=
      zero_ModuleInput\<lparr>State := ''destroyed'', ModuleInput.Release := ''web'',
                        ModuleInput.Chart := ''web-v2''\<rparr>\<rparr>)))) = ''kube-system''"
  by (simp add: setDefaultInputs_eq Wheelie_of_Input_def zero_ModuleInput_def)

lemma example_forward:
  "fst (ForwardTillerPort (example_kube_env up) w (s, tr)) =
     (if up then Return None else Return (Some ''could not find tiller''))"
  "snd (snd (ForwardTillerPort (example_kube_env up) w (s, tr))) =
     (s, tr @ [(Call_portforwarder_New (Wheelie.TillerNamespace w),
                if up then None else Some ''could not find tiller'')])"
  by (simp_all add: ForwardTillerPort_def example_kube_env_def do_portforwarder_New_def)

theorem invalid_state_fails_witness:
  "reported (fst (Run (example_io ''destroyed'') (example_kube_env True) example_env
                    example_module (0, []))) = Some (True, state_error) \<and>
   snd (Run (example_io ''destroyed'') (example_kube_env True) example_env
          example_module (0, [])) = (0, [(Call_portforwarder_New ''kube-system'', None)])"
proof -
  let ?inp = "zero_ModuleInput\<lparr>State := ''destroyed'', ModuleInput.Release := ''web'',
                               ModuleInput.Chart := ''web-v2''\<rparr> :: string ModuleInput"
  let ?w = "Wheelie_of_Input (Input (setDefaultInputs (example_module\<lparr>Input := ?inp\<rparr>)))"
  let ?f = "ForwardTillerPort (example_kube_env True) ?w (0::nat, []::string event list)"
  have invalid: "State (Input (setDefaultInputs (example_module\<lparr>Input := ?inp\<rparr>))) \<notin>
      {statePresent, stateAbsent, statePurged}"
    by (simp add: example_state statePresent_def stateAbsent_def statePurged_def)
  have forward: "?f = (fst ?f, fst (snd ?f), snd (snd ?f))"
    by simp
  note t = invalid_state_fails
    [OF example_io_facts(1) example_io_facts(2) example_io_facts(3) invalid forward,
     of example_env]
  have up: "fst ?f = Return None"
    by (simp add: example_forward)
  have st: "snd (snd ?f) = (0, [(Call_portforwarder_New ''kube-system'', None)])"
    by (simp add: example_forward example_TillerNamespace)
  show ?thesis
    using conjunct1 [OF t] mp [OF conjunct1 [OF conjunct2 [OF conjunct2 [OF t]]] up] st
    by simp
qed

text \<open>
  C5 as it is written fails on the input state \<open>destroyed\<close> when tiller cannot be
  reached: the port forwarding is attempted, the log holds its call, and the failure that
  is reported is the one of the port forwarding, not the invalid state.
\<close>

theorem invalid_state_fails_counterexample:
  "State (Input (setDefaultInputs (example_module\<lparr>Input :=
      fst (json_Unmarshal (example_io ''destroyed'') ''destroyed'' (Input example_module))\<rparr>))) =
     ''destroyed'' \<and>
   ''destroyed'' \<notin> {statePresent, stateAbsent, statePurged} \<and>
   snd (Run (example_io ''destroyed'') (example_kube_env False) example_env
          example_module (0, [])) =
     (0, [(Call_portforwarder_New ''kube-system'', Some ''could not find tiller'')]) \<and>
   reported (fst (Run (example_io ''destroyed'') (example_kube_env False) example_env
                    example_module (0, []))) =
     Some (True, ''unable to forward tiller port: could not find tiller'')"
proof -
  let ?inp = "zero_ModuleInput\<lparr>State := ''destroyed'', ModuleInput.Release := ''web'',
                               ModuleInput.Chart := ''web-v2''\<rparr> :: string ModuleInput"
  let ?m = "setDefaultInputs (example_module\<lparr>Input := ?inp\<rparr>)"
  let ?f = "ForwardTillerPort (example_kube_env False) (Wheelie_of_Input (Input ?m))
              (0::nat, []::string event list)"
  have invalid: "State (Input ?m) \<notin> {statePresent, stateAbsent, statePurged}"
    by (simp add: example_state statePresent_def stateAbsent_def statePurged_def)
  have forward: "?f = (fst ?f, fst (snd ?f), snd (snd ?f))"
    by simp
  note run = Run_invalid_state
    [OF example_io_facts(1) example_io_facts(2) example_io_facts(3) invalid forward,
     of example_env]
  have down: "fst ?f = Return (Some ''could not find tiller'')"
    by (simp add: example_forward)
  have st: "snd (snd ?f) =
      (0, [(Call_portforwarder_New ''kube-system'', Some ''could not find tiller'')])"
    by (simp add: example_forward example_TillerNamespace)
  have state: "State (Input (setDefaultInputs (example_module\<lparr>Input :=
      fst (json_Unmarshal (example_io ''destroyed'') ''destroyed'' (Input example_module))\<rparr>))) =
      ''destroyed''"
    by (simp add: example_io_facts example_state)
  have not_a_state: "''destroyed'' \<notin> {statePresent, stateAbsent, statePurged}"
    by (simp add: statePresent_def stateAbsent_def statePurged_def)
  show ?thesis
    using state not_a_state st
    by (simp add: run down reported_Return fail_Output)
qed

end
